theory Spec2Isabelle
  imports Complex_Main
begin

text \<open>
  A shallow embedding of the telemetry library of the repository (\<open>config.ts\<close>,
  \<open>tracer.ts\<close>, \<open>metrics.ts\<close>, \<open>logger.ts\<close>, \<open>middleware.ts\<close>, the SDK
  initialisation) and of the ingestion route \<open>app/api/telemetry/route.ts\<close>. Every
  function takes the telemetry state and returns the new one; a function that may throw
  returns a sum, \<open>Inl\<close> the thrown value and \<open>Inr\<close> the returned one. The
  definitions come first, the properties after them.
\<close>

section \<open>JavaScript values\<close>

text \<open>
  The values that flow through the telemetry code at run time: JSON payloads of the
  ingestion endpoint, values thrown by handlers, attribute values and log contexts.
  A JavaScript \<open>throw\<close> accepts any value, so thrown values are \<open>jsval\<close>s as well;
  \<open>JError name message stack\<close> is an instance of \<open>Error\<close>. Numbers are the finite
  numbers JSON can carry, read as reals. An object is the list of its members as written;
  where a key occurs twice the last member is the one a read sees, as after
  \<open>JSON.parse\<close>.
\<close>

datatype jsval =
    JUndefined
  | JNull
  | JBool bool
  | JNum real
  | JStr string
  | JArr "jsval list"
  | JObj "(string \<times> jsval) list"
  | JError string string string

text \<open>\<open>error instanceof Error\<close>.\<close>

fun instanceof_Error :: "jsval \<Rightarrow> bool" where
  "instanceof_Error (JError n m st) = True"
| "instanceof_Error v = False"

text \<open>Truthiness, as used by \<open>||\<close>, \<open>&&\<close> and \<open>if\<close>.\<close>

fun truthy :: "jsval \<Rightarrow> bool" where
  "truthy JUndefined = False"
| "truthy JNull = False"
| "truthy (JBool b) = b"
| "truthy (JNum x) = (x \<noteq> 0)"
| "truthy (JStr s) = (s \<noteq> [])"
| "truthy (JArr xs) = True"
| "truthy (JObj fs) = True"
| "truthy (JError n m st) = True"

definition js_or :: "jsval \<Rightarrow> jsval \<Rightarrow> jsval" where
  "js_or a b = (if truthy a then a else b)"

text \<open>
  The \<open>TypeError\<close> the runtime raises. Its message text and stack are engine specific;
  the model keeps a short message and an empty stack.
\<close>

definition type_error :: "string \<Rightarrow> jsval" where
  "type_error msg = JError ''TypeError'' msg []"

text \<open>
  Property read \<open>v.k\<close>. Reading a property of \<open>undefined\<close> or \<open>null\<close> throws;
  a missing property reads as \<open>undefined\<close>. Only the property names the program
  reads are covered (no inherited methods, no array indices).
\<close>

fun get_prop :: "jsval \<Rightarrow> string \<Rightarrow> jsval + jsval" where
  "get_prop JUndefined k = Inl (type_error ''Cannot read properties of undefined'')"
| "get_prop JNull k = Inl (type_error ''Cannot read properties of null'')"
| "get_prop (JObj fs) k =
     Inr (case map_of (rev fs) k of None \<Rightarrow> JUndefined | Some v \<Rightarrow> v)"
| "get_prop (JArr xs) k =
     Inr (if k = ''length'' then JNum (real (length xs)) else JUndefined)"
| "get_prop (JStr s) k =
     Inr (if k = ''length'' then JNum (real (length s)) else JUndefined)"
| "get_prop (JError n m st) k =
     Inr (if k = ''name'' then JStr n
          else if k = ''message'' then JStr m
          else if k = ''stack'' then JStr st
          else JUndefined)"
| "get_prop (JBool b) k = Inr JUndefined"
| "get_prop (JNum x) k = Inr JUndefined"

text \<open>
  The conversion of a value to a string, \<open>String(v)\<close> and the interpolation
  \<open>${v}\<close> of a template literal, throws for some objects. A parsed JSON object has
  no callable property of its own: one with an own member \<open>toString\<close> hides
  \<open>Object.prototype.toString\<close>, and then neither that member nor \<open>valueOf\<close>
  yields a primitive. An array is joined from the conversions of its elements
  (\<open>undefined\<close> and \<open>null\<close> give the empty string), so it throws where one of
  them does. The resulting string itself is kept symbolic, see below.
\<close>

fun to_string_throws :: "jsval \<Rightarrow> bool" where
  "to_string_throws (JObj fs) = (map_of fs ''toString'' \<noteq> None)"
| "to_string_throws (JArr xs) = list_ex to_string_throws xs"
| "to_string_throws v = False"

text \<open>
  The order of the own properties of an object: the keys that are array indices (the
  decimal text of a number below \<open>2^32 - 1\<close>, without leading zeros) come first, in
  ascending numeric order, the other keys follow in the order of their creation.
\<close>

definition is_digit :: "char \<Rightarrow> bool" where
  "is_digit c = (c \<in> set ''0123456789'')"

definition digit_value :: "char \<Rightarrow> nat" where
  "digit_value c = length (takeWhile (\<lambda>d. d \<noteq> c) ''0123456789'')"

definition read_nat :: "string \<Rightarrow> nat" where
  "read_nat k = foldl (\<lambda>n c. 10 * n + digit_value c) 0 k"

definition array_index :: "string \<Rightarrow> nat option" where
  "array_index k =
     (if k \<noteq> [] \<and> list_all is_digit k \<and> (k = ''0'' \<or> hd k \<noteq> CHR ''0'')
         \<and> read_nat k < 4294967295
      then Some (read_nat k) else None)"

definition key_before :: "string \<Rightarrow> string \<Rightarrow> bool" where
  "key_before k k' =
     (case array_index k of
        None \<Rightarrow> False
      | Some n \<Rightarrow> (case array_index k' of None \<Rightarrow> True | Some m \<Rightarrow> n < m))"

text \<open>
  Writing a property of an object literal: an existing key keeps its position and takes
  the new value (last write wins), a new key takes its place in the order above. The
  spread \<open>{...a, ...b}\<close> writes the properties of \<open>b\<close> over \<open>a\<close> in order.
\<close>

fun obj_put :: "string \<Rightarrow> 'v \<Rightarrow> (string \<times> 'v) list \<Rightarrow> (string \<times> 'v) list" where
  "obj_put k v [] = [(k, v)]"
| "obj_put k v (p # ps) =
     (if fst p = k then (k, v) # ps
      else if key_before k (fst p) then (k, v) # p # ps
      else p # obj_put k v ps)"

definition obj_spread :: "(string \<times> 'v) list \<Rightarrow> (string \<times> 'v) list \<Rightarrow> (string \<times> 'v) list" where
  "obj_spread a b = fold (\<lambda>(k, v). obj_put k v) b a"

text \<open>Decimal text of an integer, as a template literal prints it.\<close>

function show_nat :: "nat \<Rightarrow> string" where
  "show_nat n =
     (if n < 10 then [''0123456789'' ! n]
      else show_nat (n div 10) @ [''0123456789'' ! (n mod 10)])"
  by pat_completeness auto
termination
  by (relation "measure id") auto

definition show_int :: "int \<Rightarrow> string" where
  "show_int i = (if i < 0 then CHR ''-'' # show_nat (nat (- i)) else show_nat (nat i))"

section \<open>Telemetry state\<close>

text \<open>
  The OpenTelemetry API, the SDK and pino are dependencies of the repository. The model
  records what the program hands to them: the method calls made on each span, the samples
  added to each instrument and the calls made on the pino logger. What the SDK does with
  them afterwards (aggregation, export, level filtering) is outside the program. A call on
  a span, an instrument or the logger returns without throwing, as the OpenTelemetry API
  specifies for its methods; the thrown values of the model are those of the program's own
  expressions.

  Strings that the program builds by converting an arbitrary value are kept symbolic:
  \<open>AString v\<close> is \<open>String(v)\<close>, \<open>Interp p v\<close> is the template literal with prefix
  \<open>p\<close> and the value \<open>v\<close> interpolated, \<open>LFixedMs d\<close> is \<open>d.toFixed(2)\<close>
  followed by \<open>ms\<close>.
\<close>

datatype attr_value = AVal jsval | AString jsval | AStringified "(string \<times> string) list"

type_synonym attrs = "(string \<times> attr_value) list"

datatype 'v sample = Sample (sample_value: 'v) (sample_attrs: "attrs option")

datatype span_kind = INTERNAL | SERVER | CLIENT | PRODUCER | CONSUMER

datatype status_code = UNSET | OK | ERROR

datatype span_call =
    SetAttribute string attr_value
  | SetAttributes attrs
  | AddEvent string "attrs option"
  | RecordException jsval
  | SetStatus status_code jsval
  | End

record span_context =
  traceId :: string
  spanId :: string
  traceFlags :: nat

record span =
  span_name :: string
  kind :: span_kind
  start_attributes :: "attrs option"
  parent :: "nat option"
  span_ctx :: span_context
  calls :: "span_call list"

datatype log_level = Debug | Info | Warn | Error | Fatal

datatype logval = LVal jsval | LFixedMs real | LObj "(string \<times> logval) list"

type_synonym log_context = "(string \<times> logval) list"

datatype msg = Text string | Interp string jsval

datatype log_entry = LogEntry (entry_level: log_level) (entry_context: log_context) (entry_message: msg)

text \<open>
  The sampler option of the SDK. \<open>initTelemetry\<close> passes none, see below.
\<close>

datatype sampler = AlwaysOn | AlwaysOff | TraceIdRatio real | ParentBased sampler

text \<open>
  The state threaded through every function:
  \<^item> \<open>spans\<close> is the store of span objects, addressed by handle; \<open>next_span\<close> is the
    next free handle; \<open>active\<close> is the span of the current context
    (\<open>trace.getActiveSpan()\<close>);
  \<^item> \<open>fresh_ids\<close> and \<open>draws\<close> are the SDK's random sources: the identifiers and the
    sampling draw the \<open>n\<close>-th created span receives;
  \<^item> \<open>sdk_sampler\<close> is the sampler the SDK was started with;
  \<^item> \<open>clock\<close> is \<open>performance.now()\<close>;
  \<^item> the four \<open>http...\<close> fields are the lazily created module variables of
    \<open>metrics.ts\<close> (\<open>None\<close> is \<open>null\<close>, \<open>Some xs\<close> the instrument with the samples
    recorded so far); \<open>clientEventsReceived\<close> and \<open>webVitalsHistogram\<close> are the
    instruments \<open>route.ts\<close> creates when it is loaded;
  \<^item> \<open>logs\<close> are the calls made on the pino logger.
\<close>

record tel =
  spans :: "nat \<Rightarrow> span"
  next_span :: nat
  active :: "nat option"
  fresh_ids :: "nat \<Rightarrow> string \<times> string"
  draws :: "nat \<Rightarrow> real"
  sdk_sampler :: "sampler option"
  clock :: real
  httpRequestCounter :: "real sample list option"
  httpRequestDuration :: "real sample list option"
  httpActiveRequests :: "real sample list option"
  httpErrorCounter :: "real sample list option"
  clientEventsReceived :: "real sample list"
  webVitalsHistogram :: "jsval sample list"
  logs :: "log_entry list"

section \<open>metrics.ts\<close>

text \<open>
  \<open>getHttpRequestCounter\<close> and its three siblings create the instrument on first use
  and return the cached one afterwards.
\<close>

definition getHttpRequestCounter :: "tel \<Rightarrow> tel" where
  "getHttpRequestCounter s =
     (case httpRequestCounter s of None \<Rightarrow> s\<lparr>httpRequestCounter := Some []\<rparr> | Some xs \<Rightarrow> s)"

definition getHttpRequestDuration :: "tel \<Rightarrow> tel" where
  "getHttpRequestDuration s =
     (case httpRequestDuration s of None \<Rightarrow> s\<lparr>httpRequestDuration := Some []\<rparr> | Some xs \<Rightarrow> s)"

definition getHttpActiveRequests :: "tel \<Rightarrow> tel" where
  "getHttpActiveRequests s =
     (case httpActiveRequests s of None \<Rightarrow> s\<lparr>httpActiveRequests := Some []\<rparr> | Some xs \<Rightarrow> s)"

definition getHttpErrorCounter :: "tel \<Rightarrow> tel" where
  "getHttpErrorCounter s =
     (case httpErrorCounter s of None \<Rightarrow> s\<lparr>httpErrorCounter := Some []\<rparr> | Some xs \<Rightarrow> s)"

text \<open>The samples an instrument variable holds; none before it is created.\<close>

definition samples :: "'v sample list option \<Rightarrow> 'v sample list" where
  "samples v = (case v of None \<Rightarrow> [] | Some xs \<Rightarrow> xs)"

text \<open>\<open>recordHttpRequest({method, route, statusCode, duration})\<close>.\<close>

definition http_attributes :: "string \<Rightarrow> string \<Rightarrow> int \<Rightarrow> attrs" where
  "http_attributes method route statusCode =
     [(''http.method'', AVal (JStr method)),
      (''http.route'', AVal (JStr route)),
      (''http.status_code'', AVal (JNum (real_of_int statusCode))),
      (''http.status_class'', AVal (JStr (show_int (statusCode div 100) @ ''xx'')))]"

definition recordHttpRequest :: "string \<Rightarrow> string \<Rightarrow> int \<Rightarrow> real \<Rightarrow> tel \<Rightarrow> tel" where
  "recordHttpRequest method route statusCode duration s =
     (let attributes = http_attributes method route statusCode;
          s1 = getHttpRequestCounter s;
          s2 = s1\<lparr>httpRequestCounter :=
                  Some (samples (httpRequestCounter s1) @ [Sample 1 (Some attributes)])\<rparr>;
          s3 = getHttpRequestDuration s2;
          s4 = s3\<lparr>httpRequestDuration :=
                  Some (samples (httpRequestDuration s3) @ [Sample duration (Some attributes)])\<rparr>
      in if statusCode \<ge> 400
         then (let s5 = getHttpErrorCounter s4
               in s5\<lparr>httpErrorCounter :=
                      Some (samples (httpErrorCounter s5) @ [Sample 1 (Some attributes)])\<rparr>)
         else s4)"

definition incrementActiveRequests :: "attrs option \<Rightarrow> tel \<Rightarrow> tel" where
  "incrementActiveRequests attributes s =
     (let s1 = getHttpActiveRequests s
      in s1\<lparr>httpActiveRequests :=
             Some (samples (httpActiveRequests s1) @ [Sample 1 attributes])\<rparr>)"

definition decrementActiveRequests :: "attrs option \<Rightarrow> tel \<Rightarrow> tel" where
  "decrementActiveRequests attributes s =
     (let s1 = getHttpActiveRequests s
      in s1\<lparr>httpActiveRequests :=
             Some (samples (httpActiveRequests s1) @ [Sample (- 1) attributes])\<rparr>)"

text \<open>\<open>startTimer()\<close> reads the clock; \<open>timer.end()\<close> reads it again and subtracts.\<close>

definition startTimer :: "tel \<Rightarrow> real" where
  "startTimer s = clock s"

definition timer_end :: "real \<Rightarrow> tel \<Rightarrow> real" where
  "timer_end start s = clock s - start"

section \<open>The SDK's span creation\<close>

text \<open>
  The tracer is the OpenTelemetry SDK's, a dependency of the repository; its behaviour is
  restated here from its documentation as far as the program observes it. A new span is a
  child of the active span: it takes the parent's trace id and a fresh span id; a span
  created with no active span starts a new trace. The sampled flag is decided by the
  sampler the SDK was started with; with none configured the SDK uses its default,
  parent-based sampling with an always-on root. \<open>traceFlags\<close> is 1 for a sampled span
  and 0 otherwise. A ratio sampler compares the draw of the trace against its ratio.
\<close>

definition is_sampled :: "span_context \<Rightarrow> bool" where
  "is_sampled c = (traceFlags c mod 2 = 1)"

fun sample_with :: "sampler \<Rightarrow> span_context option \<Rightarrow> real \<Rightarrow> bool" where
  "sample_with AlwaysOn p d = True"
| "sample_with AlwaysOff p d = False"
| "sample_with (TraceIdRatio r) p d = (d < r)"
| "sample_with (ParentBased rt) p d =
     (case p of None \<Rightarrow> sample_with rt None d | Some c \<Rightarrow> is_sampled c)"

definition default_sampler :: sampler where
  "default_sampler = ParentBased AlwaysOn"

definition startSpan :: "string \<Rightarrow> span_kind \<Rightarrow> attrs option \<Rightarrow> tel \<Rightarrow> nat \<times> tel" where
  "startSpan name k attributes s =
     (let n = next_span s;
          pctx = map_option (\<lambda>i. span_ctx (spans s i)) (active s);
          smp = (case sdk_sampler s of None \<Rightarrow> default_sampler | Some x \<Rightarrow> x);
          ctx = \<lparr>traceId = (case pctx of None \<Rightarrow> fst (fresh_ids s n) | Some c \<Rightarrow> traceId c),
                 spanId = snd (fresh_ids s n),
                 traceFlags = (if sample_with smp pctx (draws s n) then 1 else 0)\<rparr>;
          sp = \<lparr>span_name = name, kind = k, start_attributes = attributes,
                parent = active s, span_ctx = ctx, calls = []\<rparr>
      in (n, s\<lparr>spans := (spans s)(n := sp), next_span := Suc n\<rparr>))"

text \<open>
  \<open>tracer.startActiveSpan(name, options, fn)\<close>: the new span is the active one while
  \<open>fn\<close> runs, and the previous context is back afterwards. \<open>fn\<close> is a state
  transformer; an asynchronous \<open>fn\<close> is taken at the point its promise settles, so a
  promise that never settles is outside the model, as are requests interleaved with
  this one.
\<close>

definition startActiveSpan ::
  "string \<Rightarrow> span_kind \<Rightarrow> attrs option \<Rightarrow> (nat \<Rightarrow> tel \<Rightarrow> 'a \<times> tel) \<Rightarrow> tel \<Rightarrow> 'a \<times> tel" where
  "startActiveSpan name k attributes fn s =
     (let (spn, s1) = startSpan name k attributes s;
          (r, s2) = fn spn (s1\<lparr>active := Some spn\<rparr>)
      in (r, s2\<lparr>active := active s\<rparr>))"

text \<open>The handle of the new span and the state in which \<open>fn\<close> starts.\<close>

definition enter_span :: "string \<Rightarrow> span_kind \<Rightarrow> attrs option \<Rightarrow> tel \<Rightarrow> nat \<times> tel" where
  "enter_span name k attributes s =
     (let (spn, s1) = startSpan name k attributes s in (spn, s1\<lparr>active := Some spn\<rparr>))"

text \<open>A method call on a span object: appended to the calls the span has received.\<close>

definition span_call :: "nat \<Rightarrow> span_call \<Rightarrow> tel \<Rightarrow> tel" where
  "span_call spn c s =
     s\<lparr>spans := (spans s)(spn := (spans s spn)\<lparr>calls := calls (spans s spn) @ [c]\<rparr>)\<rparr>"

section \<open>tracer.ts\<close>

definition getActiveSpan :: "tel \<Rightarrow> nat option" where
  "getActiveSpan s = active s"

definition addSpanAttributes :: "attrs \<Rightarrow> tel \<Rightarrow> tel" where
  "addSpanAttributes attributes s =
     (case getActiveSpan s of
        Some spn \<Rightarrow> span_call spn (SetAttributes attributes) s
      | None \<Rightarrow> s)"

definition addSpanEvent :: "string \<Rightarrow> attrs option \<Rightarrow> tel \<Rightarrow> tel" where
  "addSpanEvent name attributes s =
     (case getActiveSpan s of
        Some spn \<Rightarrow> span_call spn (AddEvent name attributes) s
      | None \<Rightarrow> s)"

text \<open>
  \<open>traceSync(spanName, fn, options)\<close>. A thrown value is \<open>Inl\<close>, a returned one
  \<open>Inr\<close>. The \<open>catch\<close> block records only instances of \<open>Error\<close>; the
  \<open>finally\<close> block ends the span on both paths.
\<close>

definition traceSync ::
  "string \<Rightarrow> (tel \<Rightarrow> (jsval + 'a) \<times> tel) \<Rightarrow> span_kind option \<Rightarrow> attrs option \<Rightarrow> tel
     \<Rightarrow> (jsval + 'a) \<times> tel" where
  "traceSync spanName fn kind_opt attributes s =
     startActiveSpan spanName (case kind_opt of None \<Rightarrow> INTERNAL | Some k \<Rightarrow> k) attributes
       (\<lambda>spn s1.
          let (r, s2) = fn s1;
              s3 = (case r of
                      Inr result \<Rightarrow> span_call spn (SetStatus OK JUndefined) s2
                    | Inl error \<Rightarrow>
                        (case error of
                           JError n m st \<Rightarrow>
                             span_call spn (SetStatus ERROR (JStr m))
                               (span_call spn (RecordException error) s2)
                         | _ \<Rightarrow> s2))
          in (r, span_call spn End s3))
       s"

text \<open>\<open>traceAsync\<close> is the same function with \<open>await fn()\<close> in place of \<open>fn()\<close>.\<close>

definition traceAsync ::
  "string \<Rightarrow> (tel \<Rightarrow> (jsval + 'a) \<times> tel) \<Rightarrow> span_kind option \<Rightarrow> attrs option \<Rightarrow> tel
     \<Rightarrow> (jsval + 'a) \<times> tel" where
  "traceAsync spanName fn kind_opt attributes s =
     startActiveSpan spanName (case kind_opt of None \<Rightarrow> INTERNAL | Some k \<Rightarrow> k) attributes
       (\<lambda>spn s1.
          let (r, s2) = fn s1;
              s3 = (case r of
                      Inr result \<Rightarrow> span_call spn (SetStatus OK JUndefined) s2
                    | Inl error \<Rightarrow>
                        (case error of
                           JError n m st \<Rightarrow>
                             span_call spn (SetStatus ERROR (JStr m))
                               (span_call spn (RecordException error) s2)
                         | _ \<Rightarrow> s2))
          in (r, span_call spn End s3))
       s"

definition zero_context :: span_context where
  "zero_context =
     \<lparr>traceId = ''00000000000000000000000000000000'',
      spanId = ''0000000000000000'',
      traceFlags = 0\<rparr>"

definition getTraceContext :: "tel \<Rightarrow> span_context" where
  "getTraceContext s =
     (case getActiveSpan s of
        Some spn \<Rightarrow>
          (let spanContext = span_ctx (spans s spn)
           in \<lparr>traceId = traceId spanContext,
               spanId = spanId spanContext,
               traceFlags = traceFlags spanContext\<rparr>)
      | None \<Rightarrow> zero_context)"

section \<open>logger.ts\<close>

text \<open>
  \<open>withTraceContext(context)\<close> is \<open>{...context, trace_id: traceId, span_id: spanId}\<close>.
\<close>

definition withTraceContext :: "log_context \<Rightarrow> tel \<Rightarrow> log_context" where
  "withTraceContext ctx s =
     (let tc = getTraceContext s
      in obj_put ''span_id'' (LVal (JStr (spanId tc)))
           (obj_put ''trace_id'' (LVal (JStr (traceId tc))) ctx))"

definition pino :: "log_level \<Rightarrow> log_context \<Rightarrow> msg \<Rightarrow> tel \<Rightarrow> tel" where
  "pino lvl ctx m s = s\<lparr>logs := logs s @ [LogEntry lvl ctx m]\<rparr>"

text \<open>
  The five methods of \<open>Logger\<close> share one body: a string as first argument is the
  message, logged with the bare trace context; otherwise the first argument is the context
  and the message is \<open>message || ''\<close>.
\<close>

datatype log_arg = ArgString string | ArgContext log_context

definition logger_method :: "log_level \<Rightarrow> log_arg \<Rightarrow> msg option \<Rightarrow> tel \<Rightarrow> tel" where
  "logger_method lvl arg message s =
     (case arg of
        ArgString str \<Rightarrow> pino lvl (withTraceContext [] s) (Text str) s
      | ArgContext ctx \<Rightarrow>
          pino lvl (withTraceContext ctx s) (case message of None \<Rightarrow> Text [] | Some m \<Rightarrow> m) s)"

definition logger_debug :: "log_arg \<Rightarrow> msg option \<Rightarrow> tel \<Rightarrow> tel" where
  "logger_debug = logger_method Debug"

definition logger_info :: "log_arg \<Rightarrow> msg option \<Rightarrow> tel \<Rightarrow> tel" where
  "logger_info = logger_method Info"

definition logger_warn :: "log_arg \<Rightarrow> msg option \<Rightarrow> tel \<Rightarrow> tel" where
  "logger_warn = logger_method Warn"

definition logger_error :: "log_arg \<Rightarrow> msg option \<Rightarrow> tel \<Rightarrow> tel" where
  "logger_error = logger_method Error"

definition logger_fatal :: "log_arg \<Rightarrow> msg option \<Rightarrow> tel \<Rightarrow> tel" where
  "logger_fatal = logger_method Fatal"

text \<open>\<open>logger[level]\<close>.\<close>

fun logger_at :: "log_level \<Rightarrow> log_arg \<Rightarrow> msg option \<Rightarrow> tel \<Rightarrow> tel" where
  "logger_at Debug = logger_debug"
| "logger_at Info = logger_info"
| "logger_at Warn = logger_warn"
| "logger_at Error = logger_error"
| "logger_at Fatal = logger_fatal"

definition opt_str :: "string option \<Rightarrow> jsval" where
  "opt_str v = (case v of None \<Rightarrow> JUndefined | Some x \<Rightarrow> JStr x)"

definition logHttpRequest ::
  "string \<Rightarrow> string \<Rightarrow> string option \<Rightarrow> string option \<Rightarrow> tel \<Rightarrow> tel" where
  "logHttpRequest method url userAgent ip s =
     logger_info
       (ArgContext
          [(''http'', LObj [(''method'', LVal (JStr method)),
                            (''url'', LVal (JStr url)),
                            (''userAgent'', LVal (opt_str userAgent)),
                            (''ip'', LVal (opt_str ip))])])
       (Some (Text ''HTTP request received'')) s"

definition response_level :: "int \<Rightarrow> log_level" where
  "response_level statusCode =
     (if statusCode \<ge> 500 then Error else if statusCode \<ge> 400 then Warn else Info)"

definition logHttpResponse :: "string \<Rightarrow> string \<Rightarrow> int \<Rightarrow> real \<Rightarrow> tel \<Rightarrow> tel" where
  "logHttpResponse method url statusCode duration s =
     logger_at (response_level statusCode)
       (ArgContext
          [(''http'', LObj [(''method'', LVal (JStr method)),
                            (''url'', LVal (JStr url)),
                            (''statusCode'', LVal (JNum (real_of_int statusCode))),
                            (''duration'', LFixedMs duration)])])
       (Some (Text ''HTTP response sent'')) s"

section \<open>middleware.ts\<close>

text \<open>
  A request as the wrapper reads it: method, URL, the path of the parsed URL, the headers,
  and what \<open>request.json()\<close> yields (the parsed body, or the error thrown for a body
  that is not JSON). A response carries its status code and body.
\<close>

record request =
  req_method :: string
  req_url :: string
  req_pathname :: string
  req_headers :: "string \<Rightarrow> string option"
  req_json :: "jsval + jsval"

record response =
  status :: int
  resp_body :: jsval

record options =
  opt_name :: string
  skipPaths :: "string list option"
  customAttributes :: "(string \<times> string) list option"

type_synonym params = "(string \<times> string) list"

type_synonym handler = "request \<Rightarrow> params option \<Rightarrow> tel \<Rightarrow> (jsval + response) \<times> tel"

definition startsWith :: "string \<Rightarrow> string \<Rightarrow> bool" where
  "startsWith str p = (take (length p) str = p)"

text \<open>\<open>request.headers.get(k) || undefined\<close>: an empty header value is falsy.\<close>

definition header_or_undefined :: "request \<Rightarrow> string \<Rightarrow> string option" where
  "header_or_undefined request k =
     (case req_headers request k of None \<Rightarrow> None | Some v \<Rightarrow> if v = [] then None else Some v)"

definition header_or_empty :: "request \<Rightarrow> string \<Rightarrow> string" where
  "header_or_empty request k = (case req_headers request k of None \<Rightarrow> [] | Some v \<Rightarrow> v)"

definition client_ip :: "request \<Rightarrow> string option" where
  "client_ip request =
     (case header_or_undefined request ''x-forwarded-for'' of
        Some v \<Rightarrow> Some v
      | None \<Rightarrow> header_or_undefined request ''x-real-ip'')"

definition skipped :: "options \<Rightarrow> request \<Rightarrow> bool" where
  "skipped opts request =
     (case skipPaths opts of
        None \<Rightarrow> False
      | Some ps \<Rightarrow> list_ex (\<lambda>skip. startsWith (req_pathname request) skip) ps)"

text \<open>
  The attributes the server span starts with. \<open>AStringified ps\<close> is
  \<open>JSON.stringify(context.params)\<close>.
\<close>

definition server_attributes :: "options \<Rightarrow> request \<Rightarrow> params option \<Rightarrow> attrs" where
  "server_attributes opts request ctx_params =
     obj_spread
       (obj_spread
          [(''http.method'', AVal (JStr (req_method request))),
           (''http.url'', AVal (JStr (req_url request))),
           (''http.route'', AVal (JStr (req_pathname request))),
           (''http.user_agent'', AVal (JStr (header_or_empty request ''user-agent'')))]
          (case customAttributes opts of
             None \<Rightarrow> []
           | Some cs \<Rightarrow> map (\<lambda>(k, v). (k, AVal (JStr v))) cs))
       (case ctx_params of
          None \<Rightarrow> []
        | Some ps \<Rightarrow> [(''http.route.params'', AStringified ps)])"

definition route_attributes :: "request \<Rightarrow> attrs option" where
  "route_attributes request = Some [(''http.route'', AVal (JStr (req_pathname request)))]"

text \<open>
  The object literal handed to \<open>logger.error\<close> in the \<open>catch\<close> block. Building it
  reads three properties of the thrown value, each of which throws on \<open>undefined\<close>
  and \<open>null\<close>.
\<close>

definition error_log_context :: "jsval \<Rightarrow> request \<Rightarrow> jsval + log_context" where
  "error_log_context err request =
     (case get_prop err ''message'' of
        Inl te \<Rightarrow> Inl te
      | Inr m \<Rightarrow>
     (case get_prop err ''stack'' of
        Inl te \<Rightarrow> Inl te
      | Inr st \<Rightarrow>
     (case get_prop err ''name'' of
        Inl te \<Rightarrow> Inl te
      | Inr n \<Rightarrow>
          Inr [(''error'', LObj [(''message'', LVal m), (''stack'', LVal st), (''name'', LVal n)]),
               (''http'', LObj [(''method'', LVal (JStr (req_method request))),
                                (''url'', LVal (JStr (req_url request)))])])))"

text \<open>
  The body of the \<open>try\<close> after the handler has returned \<open>response\<close>.
\<close>

definition on_response :: "nat \<Rightarrow> real \<Rightarrow> request \<Rightarrow> response \<Rightarrow> tel \<Rightarrow> tel" where
  "on_response spn timer request response s =
     (let statusCode = status response;
          s1 = span_call spn
                 (SetAttribute ''http.status_code'' (AVal (JNum (real_of_int statusCode)))) s;
          s2 = (if statusCode \<ge> 400
                then span_call spn (SetStatus ERROR (JStr (''HTTP '' @ show_int statusCode))) s1
                else span_call spn (SetStatus OK JUndefined) s1);
          duration = timer_end timer s2;
          s3 = recordHttpRequest (req_method request) (req_pathname request) statusCode duration s2
      in logHttpResponse (req_method request) (req_url request) statusCode duration s3)"

text \<open>
  The \<open>catch\<close> block. \<open>err.message\<close> is read after \<open>span.recordException(err)\<close>;
  where the read throws, the block is left with that \<open>TypeError\<close> and the rest of it
  does not run. Otherwise the block ends with \<open>throw error\<close>.
\<close>

definition on_error :: "nat \<Rightarrow> real \<Rightarrow> request \<Rightarrow> jsval \<Rightarrow> tel \<Rightarrow> jsval \<times> tel" where
  "on_error spn timer request err s =
     (let s1 = span_call spn (RecordException err) s
      in case get_prop err ''message'' of
           Inl te \<Rightarrow> (te, s1)
         | Inr m \<Rightarrow>
             (let s2 = span_call spn (SetStatus ERROR m) s1;
                  duration = timer_end timer s2;
                  s3 = recordHttpRequest (req_method request) (req_pathname request) 500 duration s2
              in case error_log_context err request of
                   Inl te \<Rightarrow> (te, s3)
                 | Inr ctx \<Rightarrow>
                     (err, logger_error (ArgContext ctx)
                             (Some (Text ''Unhandled error in API route'')) s3)))"

text \<open>
  \<open>withTelemetry(handler, options)\<close>, applied to a request. The \<open>finally\<close> block ends
  the span and decrements the active-requests counter after either block.
\<close>

definition withTelemetry :: "handler \<Rightarrow> options \<Rightarrow> handler" where
  "withTelemetry handler opts request ctx_params s =
     (if skipped opts request then handler request ctx_params s
      else
        (let timer = startTimer s;
             s1 = incrementActiveRequests (route_attributes request) s;
             s2 = logHttpRequest (req_method request) (req_url request)
                    (header_or_undefined request ''user-agent'') (client_ip request) s1
         in startActiveSpan (opt_name opts) SERVER
              (Some (server_attributes opts request ctx_params))
              (\<lambda>spn s3.
                 let (r, s4) = handler request ctx_params s3;
                     (r', s5) = (case r of
                                   Inr response \<Rightarrow>
                                     (Inr response, on_response spn timer request response s4)
                                 | Inl error \<Rightarrow>
                                     (let (thrown, s') = on_error spn timer request error s4
                                      in (Inl thrown, s')))
                 in (r', decrementActiveRequests (route_attributes request)
                           (span_call spn End s5)))
              s2))"

text \<open>
  The state in which the wrapped handler starts, and the handle of the server span: the
  counter incremented, the request logged, the span created and active.
\<close>

definition handler_entry :: "options \<Rightarrow> request \<Rightarrow> params option \<Rightarrow> tel \<Rightarrow> nat \<times> tel" where
  "handler_entry opts request ctx_params s =
     (let s1 = incrementActiveRequests (route_attributes request) s;
          s2 = logHttpRequest (req_method request) (req_url request)
                 (header_or_undefined request ''user-agent'') (client_ip request) s1
      in enter_span (opt_name opts) SERVER (Some (server_attributes opts request ctx_params)) s2)"


section \<open>app/api/telemetry/route.ts\<close>

text \<open>
  Evaluating an expression that may throw: where it throws, the function is left with
  the thrown value and the state reached so far.
\<close>

definition read_then ::
  "jsval + 'a \<Rightarrow> tel \<Rightarrow> ('a \<Rightarrow> (jsval + 'b) \<times> tel) \<Rightarrow> (jsval + 'b) \<times> tel" where
  "read_then m s f = (case m of Inl thrown \<Rightarrow> (Inl thrown, s) | Inr x \<Rightarrow> f x)"

text \<open>
  \<open>for (const event of events)\<close>: an array yields its elements, a string its
  characters, any other value is not iterable.
\<close>

fun iterate :: "jsval \<Rightarrow> jsval + jsval list" where
  "iterate (JArr xs) = Inr xs"
| "iterate (JStr str) = Inr (map (\<lambda>c. JStr [c]) str)"
| "iterate v = Inl (type_error ''events is not iterable'')"

text \<open>
  The receiver of a string method such as \<open>name.startsWith\<close>: on \<open>undefined\<close> and
  \<open>null\<close> the property read throws, on any other value that is not a string the call
  throws because the property is not a function.
\<close>

fun string_receiver :: "jsval \<Rightarrow> jsval + string" where
  "string_receiver (JStr str) = Inr str"
| "string_receiver JUndefined = Inl (type_error ''Cannot read properties of undefined'')"
| "string_receiver JNull = Inl (type_error ''Cannot read properties of null'')"
| "string_receiver v = Inl (type_error ''name.startsWith is not a function'')"

text \<open>\<open>str.replace(pat, rep)\<close> with a string pattern: the first occurrence only.\<close>

fun str_replace :: "string \<Rightarrow> string \<Rightarrow> string \<Rightarrow> string" where
  "str_replace pat rep [] = (if pat = [] then rep else [])"
| "str_replace pat rep (c # cs) =
     (if startsWith (c # cs) pat then rep @ drop (length pat) (c # cs)
      else c # str_replace pat rep cs)"

text \<open>
  The own enumerable properties an object spread \<open>...v\<close> copies: the members of an
  object, the indexed elements of an array or string, nothing for the other values.
\<close>

fun own_props :: "jsval \<Rightarrow> (string \<times> jsval) list" where
  "own_props (JObj fs) = fs"
| "own_props (JArr xs) = zip (map show_nat [0..<length xs]) xs"
| "own_props (JStr str) = zip (map show_nat [0..<length str]) (map (\<lambda>c. JStr [c]) str)"
| "own_props v = []"

text \<open>
  \<open>String(v)\<close> and a template literal with one interpolated value: the string is
  kept symbolic (\<open>AString v\<close>, \<open>Interp p v\<close>), the conversion throws where
  \<open>to_string_throws\<close> says.
\<close>

definition js_String :: "jsval \<Rightarrow> jsval + attr_value" where
  "js_String v =
     (if to_string_throws v then Inl (type_error ''Cannot convert object to primitive value'')
      else Inr (AString v))"

definition template :: "string \<Rightarrow> jsval \<Rightarrow> jsval + msg" where
  "template p v =
     (if to_string_throws v then Inl (type_error ''Cannot convert object to primitive value'')
      else Inr (Interp p v))"

definition NextResponse_json :: "jsval \<Rightarrow> response" where
  "NextResponse_json b = \<lparr>status = 200, resp_body = b\<rparr>"

text \<open>The three \<open>if\<close> statements of \<open>processMetricEvent\<close>, in order.\<close>

definition web_vital_step :: "jsval \<Rightarrow> jsval \<Rightarrow> tel \<Rightarrow> (jsval + unit) \<times> tel" where
  "web_vital_step name properties s =
     read_then (string_receiver name) s (\<lambda>str.
       if startsWith str ''web_vital_'' then
         (let vitalName = str_replace ''web_vital_'' [] str
          in read_then (get_prop properties ''value'') s (\<lambda>v.
             read_then (get_prop properties ''good'') s (\<lambda>good.
             read_then (js_String good) s (\<lambda>good_string.
             read_then (get_prop properties ''url'') s (\<lambda>url.
             read_then (js_String (js_or url (JStr []))) s (\<lambda>url_string.
               (Inr (),
                logger_info
                  (ArgContext [(''webVital'', LVal (JStr vitalName)), (''value'', LVal v),
                               (''good'', LVal good), (''url'', LVal url)])
                  (Some (Text (''Web Vital: '' @ vitalName)))
                  (s\<lparr>webVitalsHistogram := webVitalsHistogram s @
                       [Sample v (Some [(''vital.name'', AVal (JStr vitalName)),
                                        (''vital.good'', good_string),
                                        (''page.url'', url_string)])]\<rparr>))))))))
       else (Inr (), s))"

definition navigation_timing_step :: "jsval \<Rightarrow> jsval \<Rightarrow> tel \<Rightarrow> tel" where
  "navigation_timing_step name properties s =
     (if name = JStr ''navigation_timing''
      then logger_info (ArgContext [(''timing'', LVal properties)])
             (Some (Text ''Navigation timing received'')) s
      else s)"

definition component_render_step :: "jsval \<Rightarrow> jsval \<Rightarrow> tel \<Rightarrow> (jsval + unit) \<times> tel" where
  "component_render_step name properties s =
     (if name = JStr ''component_render'' then
        read_then (get_prop properties ''duration'') s (\<lambda>duration.
        read_then (get_prop properties ''slow'') s (\<lambda>slow.
          if truthy slow then
            read_then (get_prop properties ''component'') s (\<lambda>component.
              (Inr (),
               logger_warn
                 (ArgContext [(''component'', LVal component), (''duration'', LVal duration)])
                 (Some (Text ''Slow component render detected'')) s))
          else (Inr (), s)))
      else (Inr (), s))"

definition processMetricEvent :: "jsval \<Rightarrow> tel \<Rightarrow> (jsval + unit) \<times> tel" where
  "processMetricEvent event =
     traceAsync ''process.client.metric''
       (\<lambda>s.
          read_then (get_prop event ''name'') s (\<lambda>name.
          read_then (get_prop event ''properties'') s (\<lambda>properties.
            case web_vital_step name properties s of
              (Inl thrown, s1) \<Rightarrow> (Inl thrown, s1)
            | (Inr u, s1) \<Rightarrow>
                component_render_step name properties
                  (navigation_timing_step name properties s1))))
       None None"

definition processTraceEvent :: "jsval \<Rightarrow> tel \<Rightarrow> (jsval + unit) \<times> tel" where
  "processTraceEvent event =
     traceAsync ''process.client.trace''
       (\<lambda>s.
          read_then (get_prop event ''name'') s (\<lambda>name.
          read_then (get_prop event ''properties'') s (\<lambda>properties.
          read_then (template ''Client event: '' name) s (\<lambda>message.
            (Inr (),
             logger_info
               (ArgContext
                  (obj_spread [(''event'', LVal name)]
                     (map (\<lambda>(k, v). (k, LVal v)) (own_props properties))))
               (Some message) s)))))
       None None"

definition processLogEvent :: "jsval \<Rightarrow> tel \<Rightarrow> (jsval + unit) \<times> tel" where
  "processLogEvent event =
     traceAsync ''process.client.log''
       (\<lambda>s.
          read_then (get_prop event ''name'') s (\<lambda>name.
          read_then (get_prop event ''properties'') s (\<lambda>properties.
            if name = JStr ''client_error'' then
              read_then (get_prop properties ''component'') s (\<lambda>component.
              read_then (get_prop properties ''error'') s (\<lambda>err.
              read_then (get_prop properties ''url'') s (\<lambda>url.
                (Inr (),
                 logger_error
                   (ArgContext [(''component'', LVal component), (''error'', LVal err),
                                (''url'', LVal url)])
                   (Some (Text ''Client-side error reported'')) s))))
            else (Inr (), s))))
       None None"

text \<open>The body of the \<open>for\<close> loop of \<open>handleTelemetry\<close>, and the loop.\<close>

definition process_event :: "jsval \<Rightarrow> tel \<Rightarrow> (jsval + unit) \<times> tel" where
  "process_event event s =
     read_then (get_prop event ''type'') s (\<lambda>ty.
     read_then (get_prop event ''name'') s (\<lambda>name.
       (let s1 = s\<lparr>clientEventsReceived := clientEventsReceived s @
                     [Sample 1 (Some [(''event.type'', AVal ty), (''event.name'', AVal name)])]\<rparr>
        in if ty = JStr ''metric'' then processMetricEvent event s1
           else if ty = JStr ''trace'' then processTraceEvent event s1
           else if ty = JStr ''log'' then processLogEvent event s1
           else (Inr (), s1))))"

fun process_events :: "jsval list \<Rightarrow> tel \<Rightarrow> (jsval + unit) \<times> tel" where
  "process_events [] s = (Inr (), s)"
| "process_events (event # rest) s =
     (case process_event event s of
        (Inl thrown, s1) \<Rightarrow> (Inl thrown, s1)
      | (Inr u, s1) \<Rightarrow> process_events rest s1)"

definition handleTelemetry :: handler where
  "handleTelemetry request ctx_params s =
     read_then (req_json request) s (\<lambda>body.
     read_then (get_prop body ''events'') s (\<lambda>ev.
       (let events = js_or ev (JArr [])
        in read_then (get_prop events ''length'') s (\<lambda>len.
             (let s1 = addSpanAttributes
                         [(''telemetry.event_count'', AVal len),
                          (''telemetry.source'', AVal (JStr ''client''))] s
              in read_then (iterate events) s1 (\<lambda>items.
                   case process_events items s1 of
                     (Inl thrown, s2) \<Rightarrow> (Inl thrown, s2)
                   | (Inr u, s2) \<Rightarrow>
                       read_then (get_prop events ''length'') s2 (\<lambda>processed.
                         (Inr (NextResponse_json
                                 (JObj [(''success'', JBool True), (''processed'', processed)])),
                          s2))))))))"

definition POST_options :: options where
  "POST_options =
     \<lparr>opt_name = ''POST /api/telemetry'', skipPaths = None,
      customAttributes = Some [(''api.category'', ''telemetry'')]\<rparr>"

definition POST :: handler where
  "POST = withTelemetry handleTelemetry POST_options"

section \<open>What processing an event does\<close>











text \<open>
  What the theorems read off a state: level and message of the log records, name and
  calls of a span, and the spans created between two states.
\<close>

definition log_summary :: "tel \<Rightarrow> (log_level \<times> msg) list" where
  "log_summary s = map (\<lambda>e. (entry_level e, entry_message e)) (logs s)"

definition span_summary :: "tel \<Rightarrow> nat \<Rightarrow> string \<times> span_call list" where
  "span_summary s i = (span_name (spans s i), calls (spans s i))"

definition new_spans :: "tel \<Rightarrow> tel \<Rightarrow> (string \<times> span_call list) list" where
  "new_spans s s' = map (span_summary s') [next_span s..<next_span s']"


definition processed ::
  "tel \<Rightarrow> tel \<Rightarrow> real sample list \<Rightarrow> (string \<times> span_call list) list \<Rightarrow> jsval sample list
     \<Rightarrow> (log_level \<times> msg) list \<Rightarrow> bool" where
  "processed s s' cs sps vs ls =
     (next_span s \<le> next_span s'
      \<and> list_all (\<lambda>i. spans s' i = spans s i) [0..<next_span s]
      \<and> new_spans s s' = sps
      \<and> active s' = active s
      \<and> clientEventsReceived s' = clientEventsReceived s @ cs
      \<and> httpActiveRequests s' = httpActiveRequests s
      \<and> webVitalsHistogram s' = webVitalsHistogram s @ vs
      \<and> log_summary s' = log_summary s @ ls)"

section \<open>config.ts and the SDK initialisation\<close>

text \<open>
  \<open>TELEMETRY_CONFIG\<close> is computed from the process environment when the module is
  loaded. \<open>process.env.X || d\<close> falls back to \<open>d\<close> for an unset or empty variable.
\<close>

record batch_config =
  scheduledDelayMillis :: nat
  maxExportBatchSize :: nat
  maxQueueSize :: nat

record telemetry_config =
  serviceName :: string
  serviceVersion :: string
  environment :: string
  tracesEndpoint :: string
  metricsEndpoint :: string
  logsEndpoint :: string
  sampling_ratio :: real
  batch :: batch_config
  consoleExporter :: bool
  otlpExporter :: bool
  httpInstrumentation :: bool
  fetchInstrumentation :: bool

definition env_or :: "(string \<Rightarrow> string option) \<Rightarrow> string \<Rightarrow> string \<Rightarrow> string" where
  "env_or env k d = (case env k of None \<Rightarrow> d | Some v \<Rightarrow> if v = [] then d else v)"

definition TELEMETRY_CONFIG :: "(string \<Rightarrow> string option) \<Rightarrow> telemetry_config" where
  "TELEMETRY_CONFIG env =
     \<lparr>serviceName = env_or env ''OTEL_SERVICE_NAME'' ''nextjs-telem-app'',
      serviceVersion = env_or env ''npm_package_version'' ''1.0.0'',
      environment = env_or env ''NODE_ENV'' ''development'',
      tracesEndpoint =
        env_or env ''OTEL_EXPORTER_OTLP_TRACES_ENDPOINT'' ''http://localhost:4318/v1/traces'',
      metricsEndpoint =
        env_or env ''OTEL_EXPORTER_OTLP_METRICS_ENDPOINT'' ''http://localhost:4318/v1/metrics'',
      logsEndpoint =
        env_or env ''OTEL_EXPORTER_OTLP_LOGS_ENDPOINT'' ''http://localhost:4318/v1/logs'',
      sampling_ratio = (if env ''NODE_ENV'' = Some ''production'' then 1 / 10 else 1),
      batch = \<lparr>scheduledDelayMillis = 5000, maxExportBatchSize = 512, maxQueueSize = 2048\<rparr>,
      consoleExporter = False,
      otlpExporter = True,
      httpInstrumentation = True,
      fetchInstrumentation = True\<rparr>"

text \<open>
  \<open>initTelemetry\<close> builds the options of \<open>NodeSDK\<close>. The model keeps the span and
  log processors and the \<open>sampler\<close> option, which the source leaves out of the object
  it passes (\<open>None\<close>); the resource, the metric reader, the instrumentations, the console
  messages and the \<open>SIGTERM\<close> hook are left out. The batch span processor is given the
  three batch settings; the batch log processor is constructed without settings.
\<close>

datatype exporter =
    OTLPTraceExporter string
  | ConsoleSpanExporter
  | OTLPLogExporter string
  | ConsoleLogRecordExporter

datatype processor =
    BatchSpanProcessor exporter batch_config
  | SimpleSpanProcessor exporter
  | BatchLogRecordProcessor exporter
  | SimpleLogRecordProcessor exporter

record sdk_options =
  spanProcessors :: "processor list"
  logRecordProcessors :: "processor list"
  sampler :: "sampler option"

definition initTelemetry :: "telemetry_config \<Rightarrow> sdk_options" where
  "initTelemetry cfg =
     \<lparr>spanProcessors =
        (if otlpExporter cfg
         then [BatchSpanProcessor (OTLPTraceExporter (tracesEndpoint cfg)) (batch cfg)]
         else [])
        @ (if consoleExporter cfg then [SimpleSpanProcessor ConsoleSpanExporter] else []),
      logRecordProcessors =
        (if otlpExporter cfg
         then [BatchLogRecordProcessor (OTLPLogExporter (logsEndpoint cfg))]
         else [])
        @ (if consoleExporter cfg then [SimpleLogRecordProcessor ConsoleLogRecordExporter] else []),
      sampler = None\<rparr>"

text \<open>
  The state of a process after \<open>sdk.start()\<close>: no span yet, no instrument created, the
  sampler taken from the options. The random sources and the clock are those of the
  environment.
\<close>

definition no_span :: span where
  "no_span =
     \<lparr>span_name = [], kind = INTERNAL, start_attributes = None, parent = None,
      span_ctx = zero_context, calls = []\<rparr>"

definition sdk_start ::
  "sdk_options \<Rightarrow> (nat \<Rightarrow> string \<times> string) \<Rightarrow> (nat \<Rightarrow> real) \<Rightarrow> real \<Rightarrow> tel" where
  "sdk_start opts ids ds now =
     \<lparr>spans = (\<lambda>i. no_span), next_span = 0, active = None, fresh_ids = ids, draws = ds,
      sdk_sampler = sampler opts, clock = now,
      httpRequestCounter = None, httpRequestDuration = None,
      httpActiveRequests = None, httpErrorCounter = None,
      clientEventsReceived = [], webVitalsHistogram = [], logs = []\<rparr>"

section \<open>Parent links between spans\<close>

text \<open>
  The spans created so far form a forest through their \<open>parent\<close> fields; a parent is
  created before its children. \<open>ancestors s fuel d\<close> follows the parent links from
  \<open>d\<close> upwards, \<open>d\<close> included; \<open>fuel = d\<close> is enough, since handles decrease
  along the links. \<open>linked s\<close> says that every span created so far has an earlier span
  as its parent, if any, and the same sampled flag as that parent, and that the active
  span has been created.
\<close>

fun ancestors :: "tel \<Rightarrow> nat \<Rightarrow> nat \<Rightarrow> nat list" where
  "ancestors s 0 d = [d]"
| "ancestors s (Suc fuel) d =
     d # (case parent (spans s d) of None \<Rightarrow> [] | Some p \<Rightarrow> ancestors s fuel p)"

definition linked_span :: "tel \<Rightarrow> nat \<Rightarrow> bool" where
  "linked_span s i =
     (case parent (spans s i) of
        None \<Rightarrow> True
      | Some p \<Rightarrow> p < i \<and> is_sampled (span_ctx (spans s i)) = is_sampled (span_ctx (spans s p)))"

definition linked :: "tel \<Rightarrow> bool" where
  "linked s =
     (list_all (linked_span s) [0..<next_span s]
      \<and> (case active s of None \<Rightarrow> True | Some p \<Rightarrow> p < next_span s))"

section \<open>The export pipeline\<close>







section \<open>Example inputs\<close>

text \<open>
  A freshly started process in the default environment and a request to the ingestion
  endpoint, used to instantiate the theorems below.
\<close>

definition example_state :: tel where
  "example_state =
     sdk_start (initTelemetry (TELEMETRY_CONFIG (\<lambda>k. None)))
       (\<lambda>n. (''4bf92f3577b34da6a3ce929d0e0e4736'', ''00f067aa0ba902b7'')) (\<lambda>n. 0) 0"

definition example_request :: request where
  "example_request =
     \<lparr>req_method = ''POST'', req_url = ''http://localhost:3000/api/telemetry'',
      req_pathname = ''/api/telemetry'', req_headers = (\<lambda>k. None),
      req_json = Inr (JObj [])\<rparr>"




text \<open>
  A process started with \<open>NODE_ENV=production\<close>, where the configured sampling ratio
  is 0.1, in which every sampling draw is 0.5.
\<close>

definition production_env :: "string \<Rightarrow> string option" where
  "production_env k = (if k = ''NODE_ENV'' then Some ''production'' else None)"

definition production_state :: tel where
  "production_state =
     sdk_start (initTelemetry (TELEMETRY_CONFIG production_env))
       (\<lambda>n. (''4bf92f3577b34da6a3ce929d0e0e4736'', ''00f067aa0ba902b7'')) (\<lambda>n. 1 / 2) 0"



section \<open>Properties of metrics.ts\<close>

lemma show_nat_digit: "n < 10 \<Longrightarrow> show_nat n = [''0123456789'' ! n]"
  by (subst show_nat.simps) simp

lemma recordHttpRequest_request_counter:
  "samples (httpRequestCounter (recordHttpRequest m r c d s)) =
     samples (httpRequestCounter s) @ [Sample 1 (Some (http_attributes m r c))]"
  by (simp add: recordHttpRequest_def Let_def getHttpRequestCounter_def
      getHttpRequestDuration_def getHttpErrorCounter_def samples_def split: option.splits)

lemma recordHttpRequest_error_counter:
  "samples (httpErrorCounter (recordHttpRequest m r c d s)) =
     (if c \<ge> 400 then samples (httpErrorCounter s) @ [Sample 1 (Some (http_attributes m r c))]
      else samples (httpErrorCounter s))"
  by (simp add: recordHttpRequest_def Let_def getHttpRequestCounter_def
      getHttpRequestDuration_def getHttpErrorCounter_def samples_def split: option.splits)

lemma status_class_404: "map_of (http_attributes m r 404) ''http.status_class'' = Some (AVal (JStr ''4xx''))"
  by (simp add: http_attributes_def show_int_def show_nat_digit)

text \<open>
  C7. \<open>recordHttpRequest\<close> with status 404 adds exactly one sample to the request counter,
  tagged \<open>http.status_class = "4xx"\<close>, and exactly one sample to the error counter; with
  status 200 it adds exactly one sample to the request counter and none to the error
  counter; for every status code the error counter grows by one sample if the code is at
  least 400 and stays as it is otherwise.
\<close>

theorem recordHttpRequest_classification:
  "samples (httpRequestCounter (recordHttpRequest m r 404 d s)) =
     samples (httpRequestCounter s) @ [Sample 1 (Some (http_attributes m r 404))]
   \<and> map_of (http_attributes m r 404) ''http.status_class'' = Some (AVal (JStr ''4xx''))
   \<and> samples (httpErrorCounter (recordHttpRequest m r 404 d s)) =
     samples (httpErrorCounter s) @ [Sample 1 (Some (http_attributes m r 404))]
   \<and> samples (httpRequestCounter (recordHttpRequest m r 200 d s)) =
     samples (httpRequestCounter s) @ [Sample 1 (Some (http_attributes m r 200))]
   \<and> samples (httpErrorCounter (recordHttpRequest m r 200 d s)) = samples (httpErrorCounter s)
   \<and> length (samples (httpRequestCounter (recordHttpRequest m r c d s))) =
     length (samples (httpRequestCounter s)) + 1
   \<and> length (samples (httpErrorCounter (recordHttpRequest m r c d s))) =
     length (samples (httpErrorCounter s)) + (if c \<ge> 400 then 1 else 0)"
  by (simp add: recordHttpRequest_request_counter recordHttpRequest_error_counter status_class_404)


section \<open>Frame and unfolding lemmas\<close>

lemma calls_span_call:
  "calls (spans (span_call spn c s) i) = (if i = spn then calls (spans s spn) @ [c] else calls (spans s i))"
  by (simp add: span_call_def)

lemma startActiveSpan_enter:
  "startActiveSpan name k a fn s =
     (case enter_span name k a s of (spn, s1) \<Rightarrow>
        (case fn spn s1 of (r, s2) \<Rightarrow> (r, s2\<lparr>active := active s\<rparr>)))"
  by (simp add: startActiveSpan_def enter_span_def Let_def split: prod.splits)

lemmas metric_defs = recordHttpRequest_def getHttpRequestCounter_def getHttpRequestDuration_def
  getHttpErrorCounter_def getHttpActiveRequests_def incrementActiveRequests_def
  decrementActiveRequests_def samples_def

lemmas logger_defs = logger_method_def logger_debug_def logger_info_def logger_warn_def
  logger_error_def logger_fatal_def pino_def logHttpRequest_def logHttpResponse_def

lemma logger_at_method: "logger_at lvl = logger_method lvl"
  by (cases lvl) (simp_all add: logger_defs)

lemma spans_recordHttpRequest: "spans (recordHttpRequest m r c d s) = spans s"
  by (simp add: metric_defs Let_def split: option.splits)

lemma logs_recordHttpRequest: "logs (recordHttpRequest m r c d s) = logs s"
  by (simp add: metric_defs Let_def split: option.splits)

lemma active_requests_recordHttpRequest:
  "httpActiveRequests (recordHttpRequest m r c d s) = httpActiveRequests s"
  by (simp add: metric_defs Let_def split: option.splits)

lemma spans_logger_method: "spans (logger_method lvl a m s) = spans s"
  by (simp add: logger_defs split: log_arg.splits)

lemma logs_logger_method:
  "map entry_level (logs (logger_method lvl a m s)) = map entry_level (logs s) @ [lvl]"
  by (simp add: logger_defs split: log_arg.splits)

lemma withTelemetry_unfold:
  assumes "\<not> skipped opts req" and "handler_entry opts req ps s = (spn, s3)"
      and "h req ps s3 = (r, s4)"
  shows "withTelemetry h opts req ps s =
     (case r of
        Inr resp \<Rightarrow>
          (Inr resp,
           (decrementActiveRequests (route_attributes req)
              (span_call spn End (on_response spn (startTimer s) req resp s4)))\<lparr>active := active s\<rparr>)
      | Inl e \<Rightarrow>
          (Inl (fst (on_error spn (startTimer s) req e s4)),
           (decrementActiveRequests (route_attributes req)
              (span_call spn End (snd (on_error spn (startTimer s) req e s4))))\<lparr>active := active s\<rparr>))"
  using assms
  by (simp add: withTelemetry_def handler_entry_def startActiveSpan_enter Let_def
       incrementActiveRequests_def getHttpActiveRequests_def logger_defs
      split: prod.splits sum.splits option.splits log_arg.splits)


lemma calls_decrement: "spans (decrementActiveRequests a s) = spans s"
  by (simp add: metric_defs Let_def split: option.splits)

lemma calls_on_response:
  "calls (spans (on_response spn t req resp s) spn) =
     calls (spans s spn) @
       [SetAttribute ''http.status_code'' (AVal (JNum (real_of_int (status resp)))),
        if status resp \<ge> 400 then SetStatus ERROR (JStr (''HTTP '' @ show_int (status resp)))
        else SetStatus OK JUndefined]"
  by (simp add: on_response_def Let_def logHttpResponse_def logger_at_method
      spans_logger_method spans_recordHttpRequest calls_span_call)

lemma logs_on_response:
  "map entry_level (logs (on_response spn t req resp s)) =
     map entry_level (logs s) @ [response_level (status resp)]"
  by (simp add: on_response_def Let_def logHttpResponse_def logger_at_method
      logs_logger_method logs_recordHttpRequest span_call_def)

lemma logs_span_call: "logs (span_call spn c s) = logs s"
  by (simp add: span_call_def)

lemma logs_decrement: "logs (decrementActiveRequests a s) = logs s"
  by (simp add: metric_defs Let_def split: option.splits)

section \<open>Properties of middleware.ts: the response path\<close>

text \<open>
  C6. When the wrapped handler returns a response with status code \<open>s\<close>, the wrapper
  returns that response; after whatever the handler did to the server span, the wrapper
  sets the attribute \<open>http.status_code\<close> to \<open>s\<close>, then sets the span status to
  error with the message \<open>HTTP s\<close> if \<open>s\<close> is at least 400 and to ok otherwise,
  then ends the span; and it logs the response once, at level error for \<open>s\<close> at least
  500, warn for \<open>s\<close> from 400 to 499, info otherwise.
\<close>

theorem withTelemetry_response:
  assumes "\<not> skipped opts req" and "handler_entry opts req ps s = (spn, s3)"
      and "h req ps s3 = (Inr resp, s4)"
  shows "fst (withTelemetry h opts req ps s) = Inr resp
       \<and> calls (spans (snd (withTelemetry h opts req ps s)) spn) =
           calls (spans s4 spn) @
             [SetAttribute ''http.status_code'' (AVal (JNum (real_of_int (status resp)))),
              if status resp \<ge> 400
              then SetStatus ERROR (JStr (''HTTP '' @ show_int (status resp)))
              else SetStatus OK JUndefined,
              End]
       \<and> map entry_level (logs (snd (withTelemetry h opts req ps s))) =
           map entry_level (logs s4) @
             [if status resp \<ge> 500 then Error else if status resp \<ge> 400 then Warn else Info]"
  using assms withTelemetry_unfold[of opts req ps s spn s3 h "Inr resp" s4]
  by (simp add: calls_decrement calls_span_call calls_on_response logs_decrement
      logs_span_call logs_on_response response_level_def)


text \<open>The theorem at a handler that answers 404 to the example request.\<close>

lemmas example_defs = POST_options_def example_state_def example_request_def sdk_start_def
  initTelemetry_def TELEMETRY_CONFIG_def

theorem withTelemetry_response_witness:
  "fst (withTelemetry (\<lambda>req ps s. (Inr \<lparr>status = 404, resp_body = JNull\<rparr>, s))
          POST_options example_request None example_state) = Inr \<lparr>status = 404, resp_body = JNull\<rparr>
   \<and> map entry_level (logs (snd (withTelemetry (\<lambda>req ps s. (Inr \<lparr>status = 404, resp_body = JNull\<rparr>, s))
          POST_options example_request None example_state))) = [Info, Warn]"
  using withTelemetry_response[of POST_options example_request None example_state
      "fst (handler_entry POST_options example_request None example_state)"
      "snd (handler_entry POST_options example_request None example_state)"
      "\<lambda>req ps s. (Inr \<lparr>status = 404, resp_body = JNull\<rparr>, s)"
      "\<lparr>status = 404, resp_body = JNull\<rparr>"
      "snd (handler_entry POST_options example_request None example_state)"]
  by (simp add: skipped_def POST_options_def)
     (simp add: handler_entry_def enter_span_def startSpan_def Let_def example_defs
      metric_defs logger_defs split: prod.splits)


section \<open>Properties of tracer.ts\<close>

lemma traceAsync_traceSync: "traceAsync = traceSync"
  by (intro ext) (simp add: traceAsync_def traceSync_def)

lemma traceSync_result:
  assumes "enter_span nm (case k of None \<Rightarrow> INTERNAL | Some x \<Rightarrow> x) a s = (spn, s1)"
      and "fn s1 = (r, s2)"
  shows "fst (traceSync nm fn k a s) = r"
  using assms by (simp add: traceSync_def startActiveSpan_enter Let_def split: prod.splits)

lemma traceSync_calls:
  assumes "enter_span nm (case k of None \<Rightarrow> INTERNAL | Some x \<Rightarrow> x) a s = (spn, s1)"
      and "fn s1 = (r, s2)"
  shows "calls (spans (snd (traceSync nm fn k a s)) spn) =
           calls (spans s2 spn) @
             (case r of
                Inr v \<Rightarrow> [SetStatus OK JUndefined, End]
              | Inl e \<Rightarrow> (case e of JError n m st \<Rightarrow> [RecordException e, SetStatus ERROR (JStr m), End]
                         | _ \<Rightarrow> [End]))"
  using assms
  by (simp add: traceSync_def startActiveSpan_enter Let_def calls_span_call
      split: prod.splits sum.splits jsval.splits)

lemma enter_span_fresh:
  "enter_span nm k a s = (spn, s1) \<Longrightarrow> calls (spans s1 spn) = [] \<and> active s1 = Some spn"
  by (auto simp: enter_span_def startSpan_def Let_def)

text \<open>
  C4. For \<open>traceSync\<close> and for \<open>traceAsync\<close>: the span is created with no calls on
  it; the outcome of \<open>fn\<close> (returned value or thrown value) is the outcome of the
  call, unchanged; after \<open>fn\<close> the wrapper calls \<open>end()\<close> exactly once, as the last
  call on the span, on every exit path; on a normal return the calls it adds are the
  status ok and the end; when \<open>fn\<close> throws an \<open>Error\<close> they are the recorded
  exception, the status error with the error's message, and then the end.
\<close>

theorem trace_span_ended_once:
  assumes entry: "enter_span nm (case k of None \<Rightarrow> INTERNAL | Some x \<Rightarrow> x) a s = (spn, s1)"
      and run: "fn s1 = (r, s2)"
  shows "calls (spans s1 spn) = []
       \<and> fst (traceSync nm fn k a s) = r
       \<and> count_list (calls (spans (snd (traceSync nm fn k a s)) spn)) End =
           count_list (calls (spans s2 spn)) End + 1
       \<and> last (calls (spans (snd (traceSync nm fn k a s)) spn)) = End
       \<and> (\<forall>v. r = Inr v \<longrightarrow>
             calls (spans (snd (traceSync nm fn k a s)) spn) =
               calls (spans s2 spn) @ [SetStatus OK JUndefined, End])
       \<and> (\<forall>n m st. r = Inl (JError n m st) \<longrightarrow>
             calls (spans (snd (traceSync nm fn k a s)) spn) =
               calls (spans s2 spn) @
                 [RecordException (JError n m st), SetStatus ERROR (JStr m), End])
       \<and> fst (traceAsync nm fn k a s) = r
       \<and> count_list (calls (spans (snd (traceAsync nm fn k a s)) spn)) End =
           count_list (calls (spans s2 spn)) End + 1
       \<and> last (calls (spans (snd (traceAsync nm fn k a s)) spn)) = End
       \<and> (\<forall>v. r = Inr v \<longrightarrow>
             calls (spans (snd (traceAsync nm fn k a s)) spn) =
               calls (spans s2 spn) @ [SetStatus OK JUndefined, End])
       \<and> (\<forall>n m st. r = Inl (JError n m st) \<longrightarrow>
             calls (spans (snd (traceAsync nm fn k a s)) spn) =
               calls (spans s2 spn) @
                 [RecordException (JError n m st), SetStatus ERROR (JStr m), End])"
proof -
  note c = traceSync_calls[where fn=fn, OF entry run]
  have res: "fst (traceSync nm fn k a s) = r"
    by (rule traceSync_result[where fn=fn, OF entry run])
  have cnt: "count_list (calls (spans (snd (traceSync nm fn k a s)) spn)) End =
             count_list (calls (spans s2 spn)) End + 1"
    by (simp add: c split: sum.splits jsval.splits)
  have lst: "last (calls (spans (snd (traceSync nm fn k a s)) spn)) = End"
    by (simp add: c split: sum.splits jsval.splits)
  have ok: "\<forall>v. r = Inr v \<longrightarrow>
             calls (spans (snd (traceSync nm fn k a s)) spn) =
               calls (spans s2 spn) @ [SetStatus OK JUndefined, End]"
    by (simp add: c)
  have err: "\<forall>n m st. r = Inl (JError n m st) \<longrightarrow>
             calls (spans (snd (traceSync nm fn k a s)) spn) =
               calls (spans s2 spn) @
                 [RecordException (JError n m st), SetStatus ERROR (JStr m), End]"
    by (simp add: c)
  from enter_span_fresh[OF entry] res cnt lst ok err show ?thesis
    unfolding traceAsync_traceSync by blast
qed

text \<open>
  C9. When \<open>fn\<close> throws a value that is not an instance of \<open>Error\<close>, \<open>traceSync\<close>
  and \<open>traceAsync\<close> throw that same value, and the only call they make on the span after
  \<open>fn\<close> is the one \<open>end()\<close>: no exception is recorded and no status is set. The span
  starts with no calls on it, so its status is unset unless \<open>fn\<close> itself set one.
\<close>

theorem trace_non_error_throw:
  assumes entry: "enter_span nm (case k of None \<Rightarrow> INTERNAL | Some x \<Rightarrow> x) a s = (spn, s1)"
      and run: "fn s1 = (Inl e, s2)"
      and non_error: "\<not> instanceof_Error e"
  shows "fst (traceSync nm fn k a s) = Inl e
       \<and> calls (spans (snd (traceSync nm fn k a s)) spn) = calls (spans s2 spn) @ [End]
       \<and> fst (traceAsync nm fn k a s) = Inl e
       \<and> calls (spans (snd (traceAsync nm fn k a s)) spn) = calls (spans s2 spn) @ [End]
       \<and> calls (spans s1 spn) = []"
proof -
  have "calls (spans (snd (traceSync nm fn k a s)) spn) = calls (spans s2 spn) @ [End]"
    using non_error by (cases e) (simp_all add: traceSync_calls[where fn=fn, OF entry run])
  with traceSync_result[where fn=fn, OF entry run] enter_span_fresh[OF entry] show ?thesis
    unfolding traceAsync_traceSync by simp
qed

text \<open>The two theorems at a function that throws and at one that returns.\<close>

theorem trace_span_ended_once_witness:
  "calls (spans (snd (traceSync ''calculateDiscount''
            (\<lambda>s. (Inl (JError ''Error'' ''out of stock'' []) :: jsval + nat, s)) None None example_state)) 0) =
     [RecordException (JError ''Error'' ''out of stock'' []),
      SetStatus ERROR (JStr ''out of stock''), End]
   \<and> calls (spans (snd (traceAsync ''fetchUserProfile''
            (\<lambda>s. (Inr (7::nat), s)) None None example_state)) 0) = [SetStatus OK JUndefined, End]"
  using trace_span_ended_once[of "''calculateDiscount''" None None example_state
      "fst (enter_span ''calculateDiscount'' INTERNAL None example_state)"
      "snd (enter_span ''calculateDiscount'' INTERNAL None example_state)"
      "\<lambda>s. (Inl (JError ''Error'' ''out of stock'' []) :: jsval + nat, s)"
      "Inl (JError ''Error'' ''out of stock'' [])"
      "snd (enter_span ''calculateDiscount'' INTERNAL None example_state)"]
    trace_span_ended_once[of "''fetchUserProfile''" None None example_state
      "fst (enter_span ''fetchUserProfile'' INTERNAL None example_state)"
      "snd (enter_span ''fetchUserProfile'' INTERNAL None example_state)"
      "\<lambda>s. (Inr (7::nat), s)"
      "Inr (7::nat)"
      "snd (enter_span ''fetchUserProfile'' INTERNAL None example_state)"]
  by (simp add: enter_span_def startSpan_def Let_def example_defs)

theorem trace_non_error_throw_witness:
  "fst (traceSync ''calculateDiscount''
            (\<lambda>s. (Inl (JStr ''boom'') :: jsval + nat, s)) None None example_state) = Inl (JStr ''boom'')
   \<and> calls (spans (snd (traceSync ''calculateDiscount''
            (\<lambda>s. (Inl (JStr ''boom'') :: jsval + nat, s)) None None example_state)) 0) = [End]"
  using trace_non_error_throw[of "''calculateDiscount''" None None example_state
      "fst (enter_span ''calculateDiscount'' INTERNAL None example_state)"
      "snd (enter_span ''calculateDiscount'' INTERNAL None example_state)"
      "\<lambda>s. (Inl (JStr ''boom'') :: jsval + nat, s)"
      "JStr ''boom''"
      "snd (enter_span ''calculateDiscount'' INTERNAL None example_state)"]
  by (simp add: enter_span_def startSpan_def Let_def example_defs)


section \<open>Properties of logger.ts\<close>

lemma map_of_obj_put_same: "map_of (obj_put k v xs) k = Some v"
  by (induction xs) auto

lemma map_of_obj_put_other: "k' \<noteq> k \<Longrightarrow> map_of (obj_put k' v xs) k = map_of xs k"
  by (induction xs) auto

lemma withTraceContext_ids:
  "map_of (withTraceContext ctx s) ''trace_id'' = Some (LVal (JStr (traceId (getTraceContext s))))
   \<and> map_of (withTraceContext ctx s) ''span_id'' = Some (LVal (JStr (spanId (getTraceContext s))))"
  by (simp add: withTraceContext_def Let_def map_of_obj_put_same map_of_obj_put_other)

lemma logger_method_entry:
  "\<exists>m'. logs (logger_method lvl arg m s) =
     logs s @ [LogEntry lvl (withTraceContext (case arg of ArgString x \<Rightarrow> [] | ArgContext c \<Rightarrow> c) s) m']"
  by (cases arg) (simp_all add: logger_method_def pino_def)

lemma getTraceContext_ids:
  "traceId (getTraceContext s) =
     (case active s of None \<Rightarrow> replicate 32 CHR ''0'' | Some spn \<Rightarrow> traceId (span_ctx (spans s spn)))
   \<and> spanId (getTraceContext s) =
     (case active s of None \<Rightarrow> replicate 16 CHR ''0'' | Some spn \<Rightarrow> spanId (span_ctx (spans s spn)))"
  by (simp add: getTraceContext_def getActiveSpan_def zero_context_def eval_nat_numeral Let_def
      split: option.splits)

text \<open>
  C5. With no active span \<open>getTraceContext\<close> returns the all-zero context: a trace id
  of 32 zeros, a span id of 16 zeros, trace flags 0; with an active span it returns that
  span's context. It is a total function, so it returns a context in every state. Every
  method of the logger (\<open>logger_at lvl\<close> is the method for level \<open>lvl\<close>) hands pino
  exactly one record, at its level, whose \<open>trace_id\<close> and \<open>span_id\<close> are the
  identifiers of the active span when there is one and the 32 and 16 zeros otherwise,
  whatever the caller's context contained under those keys.
\<close>

theorem log_correlation:
  "(active s = None \<longrightarrow> getTraceContext s = zero_context)
   \<and> traceId zero_context = replicate 32 CHR ''0''
   \<and> spanId zero_context = replicate 16 CHR ''0''
   \<and> traceFlags zero_context = 0
   \<and> (\<forall>spn. active s = Some spn \<longrightarrow> getTraceContext s = span_ctx (spans s spn))
   \<and> (\<exists>e. logs (logger_at lvl arg m s) = logs s @ [e]
          \<and> entry_level e = lvl
          \<and> map_of (entry_context e) ''trace_id'' =
              Some (LVal (JStr (case active s of
                                  None \<Rightarrow> replicate 32 CHR ''0''
                                | Some spn \<Rightarrow> traceId (span_ctx (spans s spn)))))
          \<and> map_of (entry_context e) ''span_id'' =
              Some (LVal (JStr (case active s of
                                  None \<Rightarrow> replicate 16 CHR ''0''
                                | Some spn \<Rightarrow> spanId (span_ctx (spans s spn))))))"
proof -
  have a: "active s = None \<longrightarrow> getTraceContext s = zero_context"
    by (simp add: getTraceContext_def getActiveSpan_def)
  have b: "traceId zero_context = replicate 32 CHR ''0''"
    by (simp add: zero_context_def eval_nat_numeral)
  have c: "spanId zero_context = replicate 16 CHR ''0''"
    by (simp add: zero_context_def eval_nat_numeral)
  have d: "traceFlags zero_context = 0"
    by (simp add: zero_context_def)
  have e: "\<forall>spn. active s = Some spn \<longrightarrow> getTraceContext s = span_ctx (spans s spn)"
    by (simp add: getTraceContext_def getActiveSpan_def Let_def)
  obtain m' where
    "logs (logger_method lvl arg m s) =
       logs s @ [LogEntry lvl (withTraceContext (case arg of ArgString x \<Rightarrow> [] | ArgContext c \<Rightarrow> c) s) m']"
    using logger_method_entry by blast
  then have f: "\<exists>e. logs (logger_at lvl arg m s) = logs s @ [e]
          \<and> entry_level e = lvl
          \<and> map_of (entry_context e) ''trace_id'' =
              Some (LVal (JStr (case active s of
                                  None \<Rightarrow> replicate 32 CHR ''0''
                                | Some spn \<Rightarrow> traceId (span_ctx (spans s spn)))))
          \<and> map_of (entry_context e) ''span_id'' =
              Some (LVal (JStr (case active s of
                                  None \<Rightarrow> replicate 16 CHR ''0''
                                | Some spn \<Rightarrow> spanId (span_ctx (spans s spn)))))"
    by (simp add: logger_at_method withTraceContext_ids getTraceContext_ids)
  from a b c d e f show ?thesis by blast
qed

text \<open>
  The theorem at a record logged with no active span and at one logged inside a span.
\<close>

theorem log_correlation_witness:
  "map_of (entry_context (last (logs (logger_at Info
       (ArgContext [(''userId'', LVal (JStr ''u1''))]) (Some (Text ''User logged in''))
       example_state)))) ''trace_id'' = Some (LVal (JStr ''00000000000000000000000000000000''))
   \<and> map_of (entry_context (last (logs (logger_at Error (ArgString ''failed'') None
       (snd (enter_span ''op'' INTERNAL None example_state)))))) ''span_id'' =
       Some (LVal (JStr ''00f067aa0ba902b7''))"
proof -
  let ?s2 = "snd (enter_span ''op'' INTERNAL None example_state)"
  have a1: "active example_state = None"
    by (simp add: example_state_def sdk_start_def)
  have a2: "active ?s2 = Some 0"
    by (simp add: enter_span_def startSpan_def Let_def example_state_def sdk_start_def)
  have c2: "spanId (span_ctx (spans ?s2 0)) = ''00f067aa0ba902b7''"
    by (simp add: enter_span_def startSpan_def Let_def example_state_def sdk_start_def)
  obtain e1 where e1: "logs (logger_at Info (ArgContext [(''userId'', LVal (JStr ''u1''))])
        (Some (Text ''User logged in'')) example_state) = logs example_state @ [e1]"
    and t1: "map_of (entry_context e1) ''trace_id'' =
              Some (LVal (JStr (case active example_state of
                                  None \<Rightarrow> replicate 32 CHR ''0''
                                | Some spn \<Rightarrow> traceId (span_ctx (spans example_state spn)))))"
    using log_correlation[of example_state Info "ArgContext [(''userId'', LVal (JStr ''u1''))]"
      "Some (Text ''User logged in'')"] by blast
  obtain e2 where e2: "logs (logger_at Error (ArgString ''failed'') None ?s2) = logs ?s2 @ [e2]"
    and t2: "map_of (entry_context e2) ''span_id'' =
              Some (LVal (JStr (case active ?s2 of
                                  None \<Rightarrow> replicate 16 CHR ''0''
                                | Some spn \<Rightarrow> spanId (span_ctx (spans ?s2 spn)))))"
    using log_correlation[of ?s2 Error "ArgString ''failed''" None] by blast
  have "replicate 32 CHR ''0'' = ''00000000000000000000000000000000''"
    by (simp add: eval_nat_numeral)
  with t1 t2 show ?thesis
    by (simp only: e1 e2 last_snoc a1 a2 c2 option.case)
qed

section \<open>Properties of middleware.ts: the error path\<close>

lemma get_prop_defined:
  "get_prop v k = Inr x \<Longrightarrow> \<exists>y. get_prop v k' = Inr y"
  by (cases v) auto

lemma error_log_context_defined:
  assumes "get_prop e ''message'' = Inr m"
  shows "\<exists>ctx. error_log_context e req = Inr ctx"
proof -
  obtain st where st: "get_prop e ''stack'' = Inr st"
    using get_prop_defined[OF assms] by blast
  obtain n where n: "get_prop e ''name'' = Inr n"
    using get_prop_defined[OF assms] by blast
  show ?thesis by (simp add: error_log_context_def assms st n)
qed

lemma request_counter_logger_method:
  "httpRequestCounter (logger_method lvl a m s) = httpRequestCounter s"
  by (simp add: logger_defs split: log_arg.splits)

lemma error_counter_logger_method:
  "httpErrorCounter (logger_method lvl a m s) = httpErrorCounter s"
  by (simp add: logger_defs split: log_arg.splits)

lemma active_requests_logger_method:
  "httpActiveRequests (logger_method lvl a m s) = httpActiveRequests s"
  by (simp add: logger_defs split: log_arg.splits)

lemma on_error_ok:
  assumes "get_prop e ''message'' = Inr m"
  shows "fst (on_error spn t req e s) = e
       \<and> calls (spans (snd (on_error spn t req e s)) spn) =
           calls (spans s spn) @ [RecordException e, SetStatus ERROR m]
       \<and> samples (httpRequestCounter (snd (on_error spn t req e s))) =
           samples (httpRequestCounter s) @
             [Sample 1 (Some (http_attributes (req_method req) (req_pathname req) 500))]
       \<and> samples (httpErrorCounter (snd (on_error spn t req e s))) =
           samples (httpErrorCounter s) @
             [Sample 1 (Some (http_attributes (req_method req) (req_pathname req) 500))]
       \<and> map entry_level (logs (snd (on_error spn t req e s))) = map entry_level (logs s) @ [Error]
       \<and> entry_message (last (logs (snd (on_error spn t req e s)))) =
           Text ''Unhandled error in API route''
       \<and> httpActiveRequests (snd (on_error spn t req e s)) = httpActiveRequests s"
proof -
  obtain ctx where ctx: "error_log_context e req = Inr ctx"
    using error_log_context_defined[OF assms] by blast
  have rc: "\<And>d s'. httpRequestCounter (span_call spn d s') = httpRequestCounter s'"
    by (simp add: span_call_def)
  have ec: "\<And>d s'. httpErrorCounter (span_call spn d s') = httpErrorCounter s'"
    by (simp add: span_call_def)
  have ac: "\<And>d s'. httpActiveRequests (span_call spn d s') = httpActiveRequests s'"
    by (simp add: span_call_def)
  show ?thesis
    by (simp add: on_error_def Let_def assms ctx logger_error_def spans_logger_method
        spans_recordHttpRequest calls_span_call request_counter_logger_method
        error_counter_logger_method recordHttpRequest_request_counter
        recordHttpRequest_error_counter rc ec ac logs_logger_method logs_recordHttpRequest
        logs_span_call active_requests_logger_method active_requests_recordHttpRequest)
       (simp add: logger_method_def pino_def)
qed

lemma on_error_nullish:
  assumes "get_prop e ''message'' = Inl te"
  shows "on_error spn t req e s = (te, span_call spn (RecordException e) s)"
  by (simp add: on_error_def Let_def assms)


lemma handler_entry_facts:
  assumes "handler_entry opts req ps s = (spn, s3)"
  shows "samples (httpActiveRequests s3) =
           samples (httpActiveRequests s) @ [Sample 1 (route_attributes req)]
       \<and> calls (spans s3 spn) = []
       \<and> active s3 = Some spn
       \<and> map entry_level (logs s3) = map entry_level (logs s) @ [Info]
       \<and> httpRequestCounter s3 = httpRequestCounter s
       \<and> httpErrorCounter s3 = httpErrorCounter s"
  using assms
  by (auto simp: handler_entry_def enter_span_def startSpan_def Let_def metric_defs logger_defs
      split: option.splits)








text \<open>
  When the handler throws a value whose \<open>message\<close> can be read (any value but
  \<open>undefined\<close> and \<open>null\<close>), the wrapper records the exception, sets the status to
  error with that message, ends the span, records the request with status 500, logs at error
  level and throws the same value.
\<close>

lemma withTelemetry_error_path:
  assumes "\<not> skipped opts req" and "handler_entry opts req ps s = (spn, s3)"
      and "h req ps s3 = (Inl e, s4)" and "get_prop e ''message'' = Inr m"
  shows "fst (withTelemetry h opts req ps s) = Inl e
       \<and> calls (spans (snd (withTelemetry h opts req ps s)) spn) =
           calls (spans s4 spn) @ [RecordException e, SetStatus ERROR m, End]
       \<and> samples (httpRequestCounter (snd (withTelemetry h opts req ps s))) =
           samples (httpRequestCounter s4) @
             [Sample 1 (Some (http_attributes (req_method req) (req_pathname req) 500))]
       \<and> map entry_level (logs (snd (withTelemetry h opts req ps s))) =
           map entry_level (logs s4) @ [Error]"
proof -
  have rc: "\<And>a s'. httpRequestCounter (decrementActiveRequests a s') = httpRequestCounter s'"
    by (simp add: metric_defs Let_def split: option.splits)
  have rc2: "\<And>d s'. httpRequestCounter (span_call spn d s') = httpRequestCounter s'"
    by (simp add: span_call_def)
  show ?thesis
    using assms(1-3) withTelemetry_unfold[of opts req ps s spn s3 h "Inl e" s4]
      on_error_ok[OF assms(4), of spn "startTimer s" req s4]
    by (simp add: calls_decrement calls_span_call rc rc2 logs_decrement logs_span_call)
qed

text \<open>
  A thrown value whose \<open>message\<close> cannot be read leaves the \<open>catch\<close> block at
  that read.
\<close>

lemma withTelemetry_unreadable_throw:
  assumes ns: "\<not> skipped opts req" and unreadable: "get_prop e ''message'' = Inl te"
  shows "fst (withTelemetry (\<lambda>request ctx_params s'. (Inl e, s')) opts req ps s) = Inl te
   \<and> samples (httpRequestCounter (snd (withTelemetry (\<lambda>request ctx_params s'. (Inl e, s'))
        opts req ps s))) = samples (httpRequestCounter s)
   \<and> map entry_level (logs (snd (withTelemetry (\<lambda>request ctx_params s'. (Inl e, s'))
        opts req ps s))) = map entry_level (logs s) @ [Info]
   \<and> calls (spans (snd (withTelemetry (\<lambda>request ctx_params s'. (Inl e, s'))
        opts req ps s)) (next_span s)) = [RecordException e, End]"
proof -
  let ?h = "\<lambda>request ctx_params s'. (Inl e :: jsval + response, s' :: tel)"
  obtain spn s3 where entry: "handler_entry opts req ps s = (spn, s3)"
    by (cases "handler_entry opts req ps s")
  have spn: "spn = next_span s"
    using entry
    by (auto simp: handler_entry_def enter_span_def startSpan_def Let_def metric_defs logger_defs
        split: option.splits)
  have rc: "\<And>a s'. httpRequestCounter (decrementActiveRequests a s') = httpRequestCounter s'"
    by (simp add: metric_defs Let_def split: option.splits)
  have rc2: "\<And>d s'. httpRequestCounter (span_call spn d s') = httpRequestCounter s'"
    by (simp add: span_call_def)
  have u: "withTelemetry ?h opts req ps s =
      (Inl te,
       (decrementActiveRequests (route_attributes req)
          (span_call spn End (span_call spn (RecordException e) s3)))\<lparr>active := active s\<rparr>)"
    using withTelemetry_unfold[of opts req ps s spn s3 ?h "Inl e" s3] ns entry
    by (simp add: on_error_nullish[OF unreadable])
  show ?thesis
    using handler_entry_facts[OF entry]
    by (simp add: u spn[symmetric] calls_decrement calls_span_call rc rc2 logs_decrement
        logs_span_call)
qed

text \<open>
  C1. The claim: whenever the handler throws, the wrapper records the exception, sets the
  status to error, records the request metrics with status 500, logs at error level and
  throws the same value again. The code at a handler that throws \<open>null\<close>, for every
  request and state: after \<open>span.recordException\<close> the read of \<open>err.message\<close> throws
  a \<open>TypeError\<close>, which is what the wrapper throws in place of \<open>null\<close>; no status is
  set on the span, no request sample is recorded and no error is logged (the only record
  is the request's, at info level). The span is still ended. A handler that throws
  \<open>undefined\<close> fares the same.
\<close>

theorem withTelemetry_throw_null:
  "fst (withTelemetry (\<lambda>request ctx_params s'. (Inl JNull, s')) POST_options req ps s) =
     Inl (type_error ''Cannot read properties of null'')
   \<and> type_error ''Cannot read properties of null'' \<noteq> JNull
   \<and> samples (httpRequestCounter (snd (withTelemetry (\<lambda>request ctx_params s'. (Inl JNull, s'))
        POST_options req ps s))) = samples (httpRequestCounter s)
   \<and> map entry_level (logs (snd (withTelemetry (\<lambda>request ctx_params s'. (Inl JNull, s'))
        POST_options req ps s))) = map entry_level (logs s) @ [Info]
   \<and> calls (spans (snd (withTelemetry (\<lambda>request ctx_params s'. (Inl JNull, s'))
        POST_options req ps s)) (next_span s)) = [RecordException JNull, End]
   \<and> fst (withTelemetry (\<lambda>request ctx_params s'. (Inl JUndefined, s')) POST_options req ps s) =
     Inl (type_error ''Cannot read properties of undefined'')
   \<and> type_error ''Cannot read properties of undefined'' \<noteq> JUndefined"
proof -
  have ns: "\<not> skipped POST_options req"
    by (simp add: skipped_def POST_options_def)
  have n: "get_prop JNull ''message'' = Inl (type_error ''Cannot read properties of null'')"
    by simp
  have u: "get_prop JUndefined ''message'' = Inl (type_error ''Cannot read properties of undefined'')"
    by simp
  from withTelemetry_unreadable_throw[OF ns n, of ps s]
    withTelemetry_unreadable_throw[OF ns u, of ps s]
  show ?thesis by (simp add: type_error_def)
qed



section \<open>Properties of the ingestion endpoint\<close>










lemma withTelemetry_returns:
  assumes "\<not> skipped opts req" and "fst (h req ps (snd (handler_entry opts req ps s))) = Inr resp"
  shows "fst (withTelemetry h opts req ps s) = Inr resp"
  using assms(1) withTelemetry_unfold[of opts req ps s "fst (handler_entry opts req ps s)"
      "snd (handler_entry opts req ps s)" h "Inr resp"
      "snd (h req ps (snd (handler_entry opts req ps s)))"] assms(2)
  by (cases "h req ps (snd (handler_entry opts req ps s))") simp

lemma POST_not_skipped: "\<not> skipped POST_options req"
  by (simp add: skipped_def POST_options_def)







lemma withTelemetry_throws_error:
  assumes "\<not> skipped opts req"
      and "fst (h req ps (snd (handler_entry opts req ps s))) = Inl (JError n m st)"
  shows "fst (withTelemetry h opts req ps s) = Inl (JError n m st)"
proof -
  have m: "get_prop (JError n m st) ''message'' = Inr (JStr m)" by simp
  show ?thesis
    using assms withTelemetry_unfold[of opts req ps s "fst (handler_entry opts req ps s)"
      "snd (handler_entry opts req ps s)" h "Inl (JError n m st)"
      "snd (h req ps (snd (handler_entry opts req ps s)))"]
      on_error_ok[OF m]
    by (cases "h req ps (snd (handler_entry opts req ps s))") simp
qed

lemma frame_addSpanAttributes:
  "clientEventsReceived (addSpanAttributes a s) = clientEventsReceived s
   \<and> webVitalsHistogram (addSpanAttributes a s) = webVitalsHistogram s
   \<and> logs (addSpanAttributes a s) = logs s
   \<and> next_span (addSpanAttributes a s) = next_span s"
  by (simp add: addSpanAttributes_def getActiveSpan_def span_call_def split: option.splits)

text \<open>
  C10, as amended. For every request whose JSON body is a value other than \<open>null\<close>
  (the read \<open>body.events\<close> does not throw) and has no \<open>events\<close> member, or has
  the empty list as \<open>events\<close>, the handler only sets the two span attributes, with an
  event count of 0: it counts no event, records no web vital, logs nothing, creates no
  span, and the endpoint, with and without the wrapper, responds with the success payload
  whose \<open>processed\<close> field is 0.
\<close>

theorem handleTelemetry_empty_batch:
  assumes "req_json request = Inr body" and "get_prop body ''events'' = Inr ev"
      and "ev = JUndefined \<or> ev = JArr []"
  shows "handleTelemetry request ps s =
           (Inr (NextResponse_json (JObj [(''success'', JBool True), (''processed'', JNum 0)])),
            addSpanAttributes
              [(''telemetry.event_count'', AVal (JNum 0)),
               (''telemetry.source'', AVal (JStr ''client''))] s)
       \<and> clientEventsReceived (snd (handleTelemetry request ps s)) = clientEventsReceived s
       \<and> webVitalsHistogram (snd (handleTelemetry request ps s)) = webVitalsHistogram s
       \<and> logs (snd (handleTelemetry request ps s)) = logs s
       \<and> next_span (snd (handleTelemetry request ps s)) = next_span s
       \<and> fst (POST request ps s) =
           Inr (NextResponse_json (JObj [(''success'', JBool True), (''processed'', JNum 0)]))"
proof -
  have h: "handleTelemetry request ps s' =
           (Inr (NextResponse_json (JObj [(''success'', JBool True), (''processed'', JNum 0)])),
            addSpanAttributes
              [(''telemetry.event_count'', AVal (JNum 0)),
               (''telemetry.source'', AVal (JStr ''client''))] s')" for s'
    using assms(3)
    by (auto simp: handleTelemetry_def read_then_def assms(1,2) js_or_def Let_def)
  have "fst (POST request ps s) =
           Inr (NextResponse_json (JObj [(''success'', JBool True), (''processed'', JNum 0)]))"
    unfolding POST_def
    by (rule withTelemetry_returns[OF POST_not_skipped]) (simp add: h)
  then show ?thesis
    by (simp add: h frame_addSpanAttributes)
qed

theorem handleTelemetry_empty_batch_witness:
  "fst (POST example_request None example_state) =
     Inr (NextResponse_json (JObj [(''success'', JBool True), (''processed'', JNum 0)]))"
  using handleTelemetry_empty_batch[of example_request "JObj []" JUndefined None example_state]
  by (simp add: example_request_def)

text \<open>
  C10 as stated fails at the JSON body \<open>null\<close>, which has no \<open>events\<close> member:
  reading \<open>body.events\<close> throws and the request fails.
\<close>

theorem null_body_fails:
  "fst (POST (example_request\<lparr>req_json := Inr JNull\<rparr>) None example_state) =
     Inl (type_error ''Cannot read properties of null'')"
proof -
  have h: "handleTelemetry (example_request\<lparr>req_json := Inr JNull\<rparr>) None s' =
      (Inl (type_error ''Cannot read properties of null''), s')" for s'
    by (simp add: handleTelemetry_def read_then_def)
  show ?thesis
    unfolding POST_def type_error_def
    by (rule withTelemetry_throws_error[OF POST_not_skipped]) (simp add: h type_error_def[symmetric])
qed


section \<open>Properties of the ingestion endpoint: events that are processed\<close>




















section \<open>Properties of the ingestion endpoint: events that throw\<close>
























section \<open>Properties of the ingestion endpoint: the batch\<close>










section \<open>Properties of span creation: sampling\<close>

text \<open>
  \<open>initTelemetry\<close> passes no sampler, whatever the configured ratio: the options it
  builds do not depend on \<open>sampling.ratio\<close>.
\<close>

lemma initTelemetry_sampler: "sampler (initTelemetry cfg) = None"
  by (simp add: initTelemetry_def)

lemma initTelemetry_ratio: "initTelemetry (cfg\<lparr>sampling_ratio := r\<rparr>) = initTelemetry cfg"
  by (simp add: initTelemetry_def)

text \<open>
  With no sampler configured, a span created with no active span is sampled and a span
  created under an active span takes the sampled flag and the trace id of that span.
\<close>

lemma startSpan_default_root:
  assumes "sdk_sampler s = None" and "active s = None"
  shows "is_sampled (span_ctx (spans (snd (startSpan nm k a s)) (fst (startSpan nm k a s))))"
  using assms by (simp add: startSpan_def Let_def default_sampler_def is_sampled_def)

lemma startSpan_default_child:
  assumes "sdk_sampler s = None" and "active s = Some p"
  shows "is_sampled (span_ctx (spans (snd (startSpan nm k a s)) (fst (startSpan nm k a s)))) =
           is_sampled (span_ctx (spans s p))
       \<and> traceId (span_ctx (spans (snd (startSpan nm k a s)) (fst (startSpan nm k a s)))) =
           traceId (span_ctx (spans s p))
       \<and> parent (spans (snd (startSpan nm k a s)) (fst (startSpan nm k a s))) = Some p"
  using assms by (simp add: startSpan_def Let_def default_sampler_def is_sampled_def)

text \<open>
  Creating spans and calling their methods keeps every span's sampled flag equal to its
  parent's, so every span has the sampled flag of each of its ancestors: the descendants
  of an unsampled span are unsampled.
\<close>

lemma linked_span_cong:
  assumes "spans s' i = spans s i"
      and "\<And>p. parent (spans s i) = Some p \<Longrightarrow> spans s' p = spans s p"
  shows "linked_span s' i = linked_span s i"
  using assms by (auto simp: linked_span_def split: option.splits)

lemma linked_enter_span:
  assumes "linked s" and "sdk_sampler s = None"
  shows "linked (snd (enter_span nm k a s))"
proof -
  let ?n = "next_span s"
  let ?s' = "snd (enter_span nm k a s)"
  have ns: "next_span ?s' = Suc ?n" and act: "active ?s' = Some ?n"
    by (simp_all add: enter_span_def startSpan_def Let_def)
  have old: "spans ?s' i = spans s i" if "i < ?n" for i
    using that by (simp add: enter_span_def startSpan_def Let_def)
  have all: "\<forall>i<?n. linked_span s i"
    using assms(1) by (simp add: linked_def list_all_iff)
  have "linked_span ?s' i" if "i < ?n" for i
  proof -
    have l: "linked_span s i" using all that by simp
    have "linked_span ?s' i = linked_span s i"
    proof (rule linked_span_cong)
      show "spans ?s' i = spans s i" by (rule old[OF that])
    next
      fix p assume "parent (spans s i) = Some p"
      with l have "p < i" by (simp add: linked_span_def)
      with that show "spans ?s' p = spans s p" by (simp add: old)
    qed
    with l show ?thesis by simp
  qed
  moreover have "linked_span ?s' ?n"
  proof (cases "active s")
    case None
    then show ?thesis by (simp add: linked_span_def enter_span_def startSpan_def Let_def)
  next
    case (Some p)
    with assms(1) have "p < ?n" by (simp add: linked_def)
    with Some assms(2) show ?thesis
      by (simp add: linked_span_def enter_span_def startSpan_def Let_def default_sampler_def
          is_sampled_def)
  qed
  ultimately have "\<forall>i<Suc ?n. linked_span ?s' i"
    using less_Suc_eq by auto
  then show ?thesis
    by (simp add: linked_def ns act list_all_iff del: upt_Suc)
qed

lemma span_call_keeps:
  "parent (spans (span_call spn c s) i) = parent (spans s i)
   \<and> span_ctx (spans (span_call spn c s) i) = span_ctx (spans s i)
   \<and> next_span (span_call spn c s) = next_span s
   \<and> active (span_call spn c s) = active s"
  by (simp add: span_call_def)

lemma linked_span_call: "linked (span_call spn c s) = linked s"
proof -
  have "linked_span (span_call spn c s) = linked_span s"
    by (intro ext) (simp add: linked_span_def span_call_keeps split: option.splits)
  then show ?thesis
    by (simp add: linked_def span_call_keeps split: option.splits)
qed

lemma linked_sdk_start: "linked (sdk_start opts ids ds now)"
  by (simp add: linked_def sdk_start_def)

lemma ancestors_sampled:
  assumes "linked s"
  shows "d < next_span s \<Longrightarrow> a \<in> set (ancestors s fuel d) \<Longrightarrow>
         is_sampled (span_ctx (spans s a)) = is_sampled (span_ctx (spans s d))"
proof (induction fuel arbitrary: d)
  case 0
  then show ?case by simp
next
  case (Suc fuel)
  show ?case
  proof (cases "a = d")
    case True
    then show ?thesis by simp
  next
    case False
    with Suc.prems(2) obtain p where p: "parent (spans s d) = Some p"
      and a: "a \<in> set (ancestors s fuel p)"
      by (cases "parent (spans s d)") auto
    have "linked_span s d"
      using assms Suc.prems(1) by (simp add: linked_def list_all_iff)
    with p have lt: "p < d" and eq: "is_sampled (span_ctx (spans s d)) = is_sampled (span_ctx (spans s p))"
      by (simp_all add: linked_span_def)
    from lt Suc.prems(1) have "p < next_span s" by simp
    from Suc.IH[OF this a] eq show ?thesis by simp
  qed
qed


text \<open>
  C2. The claim: the sampled flag of a root span is decided by comparing a uniform random
  draw with the configured sampling ratio. The code in production, where the configured
  ratio is 0.1, at a root span whose draw is 0.5: the draw is not below the ratio, and the
  span is sampled all the same, because the SDK was started without a sampler.
\<close>

theorem production_root_sampled_above_ratio:
  "sampling_ratio (TELEMETRY_CONFIG production_env) = 1 / 10
   \<and> \<not> draws production_state 0 < sampling_ratio (TELEMETRY_CONFIG production_env)
   \<and> active production_state = None
   \<and> is_sampled (span_ctx (spans (snd (startSpan ''GET /api/users'' SERVER None production_state))
        (fst (startSpan ''GET /api/users'' SERVER None production_state))))
   \<and> sdk_sampler production_state = None"
  by (simp add: production_state_def production_env_def TELEMETRY_CONFIG_def initTelemetry_def
      sdk_start_def startSpan_def Let_def default_sampler_def is_sampled_def)


section \<open>Properties of the export pipeline\<close>









end
